theory Spec2Isabelle
  imports Main "HOL-Library.Word" "HOL-Library.Signed_Division"
begin

unbundle bit_operations_syntax

section \<open>ARM LPAE I/O page-table allocator (drivers/iommu/io-pgtable-arm.c)\<close>

text \<open>
  A descriptor (\<open>arm_lpae_iopte\<close>, a \<open>u64\<close>) is a 64-bit word. C values of type
  \<open>int\<close> are 32-bit words; conversions to a 64-bit type sign-extend (\<open>scast\<close>), conversions
  from one truncate (\<open>ucast\<close>).
\<close>

type_synonym arm_lpae_iopte = "64 word"
type_synonym c_int = "32 word"

subsection \<open>Constants of the descriptor format\<close>

definition ARM_LPAE_MAX_ADDR_BITS :: nat where "ARM_LPAE_MAX_ADDR_BITS = 48"
definition ARM_LPAE_S2_MAX_CONCAT_PAGES :: "64 word" where "ARM_LPAE_S2_MAX_CONCAT_PAGES = 16"
definition ARM_LPAE_MAX_LEVELS :: int where "ARM_LPAE_MAX_LEVELS = 4"

definition ARM_LPAE_PTE_TYPE_SHIFT :: nat where "ARM_LPAE_PTE_TYPE_SHIFT = 0"
definition ARM_LPAE_PTE_TYPE_MASK :: arm_lpae_iopte where "ARM_LPAE_PTE_TYPE_MASK = 0x3"
definition ARM_LPAE_PTE_TYPE_BLOCK :: arm_lpae_iopte where "ARM_LPAE_PTE_TYPE_BLOCK = 1"
definition ARM_LPAE_PTE_TYPE_TABLE :: arm_lpae_iopte where "ARM_LPAE_PTE_TYPE_TABLE = 3"
definition ARM_LPAE_PTE_TYPE_PAGE :: arm_lpae_iopte where "ARM_LPAE_PTE_TYPE_PAGE = 3"

definition ARM_LPAE_PTE_NSTABLE :: arm_lpae_iopte where "ARM_LPAE_PTE_NSTABLE = push_bit 63 1"
definition ARM_LPAE_PTE_XN :: arm_lpae_iopte where "ARM_LPAE_PTE_XN = push_bit 53 3"
definition ARM_LPAE_PTE_AF :: arm_lpae_iopte where "ARM_LPAE_PTE_AF = push_bit 10 1"
definition ARM_LPAE_PTE_SH_IS :: arm_lpae_iopte where "ARM_LPAE_PTE_SH_IS = push_bit 8 3"
definition ARM_LPAE_PTE_NS :: arm_lpae_iopte where "ARM_LPAE_PTE_NS = push_bit 5 1"
definition ARM_LPAE_PTE_VALID :: arm_lpae_iopte where "ARM_LPAE_PTE_VALID = push_bit 0 1"

definition ARM_LPAE_PTE_ATTR_LO_MASK :: arm_lpae_iopte where
  "ARM_LPAE_PTE_ATTR_LO_MASK = push_bit 2 0x3ff"
definition ARM_LPAE_PTE_ATTR_HI_MASK :: arm_lpae_iopte where
  "ARM_LPAE_PTE_ATTR_HI_MASK = push_bit 52 6"
definition ARM_LPAE_PTE_ATTR_MASK :: arm_lpae_iopte where
  "ARM_LPAE_PTE_ATTR_MASK = ARM_LPAE_PTE_ATTR_LO_MASK OR ARM_LPAE_PTE_ATTR_HI_MASK"

text \<open>Stage-1 leaf attributes.\<close>

definition ARM_LPAE_PTE_AP_PRIV_RW :: arm_lpae_iopte where "ARM_LPAE_PTE_AP_PRIV_RW = push_bit 6 0"
definition ARM_LPAE_PTE_AP_RW :: arm_lpae_iopte where "ARM_LPAE_PTE_AP_RW = push_bit 6 1"
definition ARM_LPAE_PTE_AP_PRIV_RO :: arm_lpae_iopte where "ARM_LPAE_PTE_AP_PRIV_RO = push_bit 6 2"
definition ARM_LPAE_PTE_AP_RO :: arm_lpae_iopte where "ARM_LPAE_PTE_AP_RO = push_bit 6 3"
definition ARM_LPAE_PTE_ATTRINDX_SHIFT :: nat where "ARM_LPAE_PTE_ATTRINDX_SHIFT = 2"
definition ARM_LPAE_PTE_nG :: arm_lpae_iopte where "ARM_LPAE_PTE_nG = push_bit 11 1"

text \<open>Stage-2 leaf attributes.\<close>

definition ARM_LPAE_PTE_HAP_FAULT :: arm_lpae_iopte where "ARM_LPAE_PTE_HAP_FAULT = push_bit 6 0"
definition ARM_LPAE_PTE_HAP_READ :: arm_lpae_iopte where "ARM_LPAE_PTE_HAP_READ = push_bit 6 1"
definition ARM_LPAE_PTE_HAP_WRITE :: arm_lpae_iopte where "ARM_LPAE_PTE_HAP_WRITE = push_bit 6 2"
definition ARM_LPAE_PTE_MEMATTR_OIWB :: arm_lpae_iopte where
  "ARM_LPAE_PTE_MEMATTR_OIWB = push_bit 2 0xf"
definition ARM_LPAE_PTE_MEMATTR_NC :: arm_lpae_iopte where
  "ARM_LPAE_PTE_MEMATTR_NC = push_bit 2 0x5"
definition ARM_LPAE_PTE_MEMATTR_DEV :: arm_lpae_iopte where
  "ARM_LPAE_PTE_MEMATTR_DEV = push_bit 2 0x1"

definition ARM_LPAE_MAIR_ATTR_IDX_CACHE :: arm_lpae_iopte where "ARM_LPAE_MAIR_ATTR_IDX_CACHE = 1"
definition ARM_LPAE_MAIR_ATTR_IDX_DEV :: arm_lpae_iopte where "ARM_LPAE_MAIR_ATTR_IDX_DEV = 2"

subsection \<open>The table-use counter hidden in the ignored bits of a table descriptor\<close>

definition BOTTOM_IGNORED_MASK :: "64 word" where "BOTTOM_IGNORED_MASK = 0x3ff"
definition BOTTOM_IGNORED_SHIFT :: nat where "BOTTOM_IGNORED_SHIFT = 2"
definition BOTTOM_IGNORED_NUM_BITS :: nat where "BOTTOM_IGNORED_NUM_BITS = 10"
definition TOP_IGNORED_MASK :: "64 word" where "TOP_IGNORED_MASK = 0x7f"
definition TOP_IGNORED_SHIFT :: nat where "TOP_IGNORED_SHIFT = 52"

definition IOPTE_RESERVED_MASK :: "64 word" where
  "IOPTE_RESERVED_MASK =
     push_bit BOTTOM_IGNORED_SHIFT BOTTOM_IGNORED_MASK OR push_bit TOP_IGNORED_SHIFT TOP_IGNORED_MASK"

definition iopte_val :: "arm_lpae_iopte \<Rightarrow> arm_lpae_iopte" where
  "iopte_val table_pte = table_pte AND NOT IOPTE_RESERVED_MASK"

definition iopte_bottom_ignored_val :: "arm_lpae_iopte \<Rightarrow> arm_lpae_iopte" where
  "iopte_bottom_ignored_val table_pte =
     drop_bit BOTTOM_IGNORED_SHIFT
       (table_pte AND push_bit BOTTOM_IGNORED_SHIFT BOTTOM_IGNORED_MASK)"

definition iopte_top_ignored_val :: "arm_lpae_iopte \<Rightarrow> arm_lpae_iopte" where
  "iopte_top_ignored_val table_pte =
     drop_bit TOP_IGNORED_SHIFT (table_pte AND push_bit TOP_IGNORED_SHIFT TOP_IGNORED_MASK)"

text \<open>\<open>iopte_tblcnt\<close> returns an \<open>int\<close>: the 64-bit value is truncated.\<close>

definition iopte_tblcnt :: "arm_lpae_iopte \<Rightarrow> c_int" where
  "iopte_tblcnt table_pte =
     ucast (iopte_bottom_ignored_val table_pte
            OR push_bit BOTTOM_IGNORED_NUM_BITS (iopte_top_ignored_val table_pte))"

text \<open>
  \<open>iopte_tblcnt_set\<close> writes through a pointer; here it maps the old descriptor to the
  new one. \<open>val & BOTTOM_IGNORED_MASK\<close> and its shift are computed in \<open>int\<close>; the top
  part is computed in 64 bits, on the sign-extended \<open>val\<close>.
\<close>

definition iopte_tblcnt_set :: "arm_lpae_iopte \<Rightarrow> c_int \<Rightarrow> arm_lpae_iopte" where
  "iopte_tblcnt_set table_pte val =
     iopte_val table_pte
     OR (scast (push_bit BOTTOM_IGNORED_SHIFT (val AND 0x3ff) :: c_int)
         OR push_bit TOP_IGNORED_SHIFT
              (drop_bit BOTTOM_IGNORED_NUM_BITS
                 ((scast val :: 64 word) AND push_bit BOTTOM_IGNORED_NUM_BITS TOP_IGNORED_MASK)))"

text \<open>
  In \<open>iopte_tblcnt_sub\<close> and \<open>iopte_tblcnt_add\<close> the current count is held in a 64-bit
  variable, the \<open>int\<close> argument is sign-extended, and the result is truncated to \<open>int\<close>
  when it is passed to \<open>iopte_tblcnt_set\<close>.
\<close>

definition iopte_tblcnt_sub :: "arm_lpae_iopte \<Rightarrow> c_int \<Rightarrow> arm_lpae_iopte" where
  "iopte_tblcnt_sub table_pte cnt =
     (let current_cnt = (scast (iopte_tblcnt table_pte) :: 64 word) - scast cnt
      in iopte_tblcnt_set table_pte (ucast current_cnt))"

definition iopte_tblcnt_add :: "arm_lpae_iopte \<Rightarrow> c_int \<Rightarrow> arm_lpae_iopte" where
  "iopte_tblcnt_add table_pte cnt =
     (let current_cnt = (scast (iopte_tblcnt table_pte) :: 64 word) + scast cnt
      in iopte_tblcnt_set table_pte (ucast current_cnt))"

subsection \<open>C helpers\<close>

text \<open>
  The C expression \<open>1 << n\<close> has type \<open>int\<close>; where the source uses it as an
  \<open>unsigned long\<close> or a \<open>size_t\<close> it is sign-extended. C leaves the shift undefined from
  \<open>n = 31\<close> on; the model takes the 32-bit shift of the word library there (the sign bit for
  31, and 0 from 32 on).
\<close>

definition int_shl1 :: "nat \<Rightarrow> c_int" where
  "int_shl1 n = push_bit n 1"

text \<open>Division of two \<open>int\<close>s truncates towards zero.\<close>

definition int_div :: "c_int \<Rightarrow> c_int \<Rightarrow> c_int" where
  "int_div a b = word_of_int (sint a sdiv sint b)"

definition int_min :: "c_int \<Rightarrow> c_int \<Rightarrow> c_int" where
  "int_min a b = (if sint a < sint b then a else b)"

text \<open>
  \<open>fls64 x\<close> is the position, counted from 1, of the most significant set bit of \<open>x\<close>,
  and 0 for \<open>x = 0\<close>; \<open>ffs_from x 0 64\<close> is the index of the least significant set bit.
  The kernel's \<open>__fls\<close> and \<open>__ffs\<close> are undefined at 0; the model yields 0 and 64.
\<close>

fun fls_below :: "64 word \<Rightarrow> nat \<Rightarrow> nat" where
  "fls_below x 0 = 0"
| "fls_below x (Suc k) = (if bit x k then Suc k else fls_below x k)"

definition fls64 :: "64 word \<Rightarrow> nat" where
  "fls64 x = fls_below x 64"

definition fls :: "64 word \<Rightarrow> nat" where
  "fls x = fls64 x - 1"

fun ffs_from :: "64 word \<Rightarrow> nat \<Rightarrow> nat \<Rightarrow> nat" where
  "ffs_from x i 0 = i"
| "ffs_from x i (Suc k) = (if bit x i then i else ffs_from x (Suc i) k)"

definition ffs :: "64 word \<Rightarrow> nat" where
  "ffs x = ffs_from x 0 64"

text \<open>\<open>ilog2\<close> of a run-time 64-bit value is \<open>fls64(n) - 1\<close>, an \<open>int\<close>: \<open>-1\<close> for 0.\<close>

definition ilog2 :: "64 word \<Rightarrow> int" where
  "ilog2 n = int (fls64 n) - 1"

definition round_down :: "64 word \<Rightarrow> 64 word \<Rightarrow> 64 word" where
  "round_down x y = x AND NOT (y - 1)"

definition SZ_4K :: "64 word" where "SZ_4K = 0x1000"
definition SZ_16K :: "64 word" where "SZ_16K = 0x4000"
definition SZ_64K :: "64 word" where "SZ_64K = 0x10000"
definition SZ_2M :: "64 word" where "SZ_2M = 0x200000"
definition SZ_32M :: "64 word" where "SZ_32M = 0x2000000"
definition SZ_512M :: "64 word" where "SZ_512M = 0x20000000"
definition SZ_1G :: "64 word" where "SZ_1G = 0x40000000"

definition EEXIST :: c_int where "EEXIST = 17"
definition ENOMEM :: c_int where "ENOMEM = 12"
definition EINVAL :: c_int where "EINVAL = 22"

subsection \<open>Configuration and page-table data\<close>

text \<open>
  The protection argument \<open>iommu_prot\<close> is a bit mask of \<open>IOMMU_*\<close> flags, which the
  source only tests flag by flag; it is modelled as the set of flags that are on. In the
  same way the quirk \<open>IO_PGTABLE_QUIRK_ARM_NS\<close> is a boolean.
\<close>

datatype iommu_flag =
  IOMMU_READ | IOMMU_WRITE | IOMMU_CACHE | IOMMU_NOEXEC | IOMMU_PRIV | IOMMU_DEVICE

datatype io_pgtable_fmt = ARM_32_LPAE_S1 | ARM_32_LPAE_S2 | ARM_64_LPAE_S1 | ARM_64_LPAE_S2

record io_pgtable_cfg =
  quirk_arm_ns :: bool
  pgsize_bitmap :: "64 word"
  ias :: "32 word"
  oas :: "32 word"
  s1_tcr :: "64 word"
  s1_mair0 :: "64 word"
  s1_mair1 :: "64 word"
  s1_ttbr0 :: "64 word"
  s1_ttbr1 :: "64 word"
  s2_vtcr :: "64 word"
  s2_vttbr :: "64 word"

record arm_lpae_io_pgtable =
  iop_cfg :: io_pgtable_cfg
  iop_fmt :: io_pgtable_fmt
  levels :: int
  pgd_size :: "64 word"
  pg_shift :: nat
  bits_per_level :: nat
  pgd :: "64 word"

subsection \<open>Geometry macros\<close>

definition ARM_LPAE_START_LVL :: "arm_lpae_io_pgtable \<Rightarrow> int" where
  "ARM_LPAE_START_LVL d = ARM_LPAE_MAX_LEVELS - levels d"

text \<open>
  The shift amounts are computed in \<open>unsigned long\<close>; for the levels 0 to 4 the values are
  small and non-negative, and the model computes them in \<open>int\<close>.
\<close>

definition ARM_LPAE_LVL_SHIFT :: "int \<Rightarrow> arm_lpae_io_pgtable \<Rightarrow> nat" where
  "ARM_LPAE_LVL_SHIFT l d =
     nat ((levels d - (l - ARM_LPAE_START_LVL d + 1)) * int (bits_per_level d) + int (pg_shift d))"

definition ARM_LPAE_PAGES_PER_PGD :: "arm_lpae_io_pgtable \<Rightarrow> 64 word" where
  "ARM_LPAE_PAGES_PER_PGD d = drop_bit (pg_shift d) (pgd_size d)"

definition ARM_LPAE_PGD_IDX :: "int \<Rightarrow> arm_lpae_io_pgtable \<Rightarrow> int" where
  "ARM_LPAE_PGD_IDX l d = (if l = ARM_LPAE_START_LVL d then ilog2 (ARM_LPAE_PAGES_PER_PGD d) else 0)"

definition ARM_LPAE_LVL_IDX :: "64 word \<Rightarrow> int \<Rightarrow> arm_lpae_io_pgtable \<Rightarrow> 64 word" where
  "ARM_LPAE_LVL_IDX a l d =
     drop_bit (ARM_LPAE_LVL_SHIFT l d) a
     AND scast (int_shl1 (nat (int (bits_per_level d) + ARM_LPAE_PGD_IDX l d)) - 1)"

definition ARM_LPAE_BLOCK_SIZE :: "int \<Rightarrow> arm_lpae_io_pgtable \<Rightarrow> c_int" where
  "ARM_LPAE_BLOCK_SIZE l d =
     int_shl1 (nat (3 + (ARM_LPAE_MAX_LEVELS - l) * int (bits_per_level d)))"

subsection \<open>Descriptor accessors\<close>

text \<open>
  \<open>iopte_deref\<close> yields the kernel virtual address of the table a descriptor points to.
  \<open>__va\<close> and \<open>__pa\<close> are the kernel's linear map; the model takes it with offset 0, so
  that a table's virtual and physical address coincide.
\<close>

definition iopte_deref :: "arm_lpae_iopte \<Rightarrow> arm_lpae_io_pgtable \<Rightarrow> 64 word" where
  "iopte_deref pte d =
     iopte_val pte AND (push_bit ARM_LPAE_MAX_ADDR_BITS 1 - 1) AND NOT (push_bit (pg_shift d) 1 - 1)"

definition iopte_type :: "arm_lpae_iopte \<Rightarrow> arm_lpae_iopte" where
  "iopte_type pte = drop_bit ARM_LPAE_PTE_TYPE_SHIFT pte AND ARM_LPAE_PTE_TYPE_MASK"

definition iopte_prot :: "arm_lpae_iopte \<Rightarrow> arm_lpae_iopte" where
  "iopte_prot pte = pte AND ARM_LPAE_PTE_ATTR_MASK"

definition iopte_leaf :: "arm_lpae_iopte \<Rightarrow> int \<Rightarrow> bool" where
  "iopte_leaf pte l =
     (if l = ARM_LPAE_MAX_LEVELS - 1 then iopte_type pte = ARM_LPAE_PTE_TYPE_PAGE
      else iopte_type pte = ARM_LPAE_PTE_TYPE_BLOCK)"

definition iopte_to_pfn :: "arm_lpae_iopte \<Rightarrow> arm_lpae_io_pgtable \<Rightarrow> 64 word" where
  "iopte_to_pfn pte d =
     drop_bit (pg_shift d) (pte AND (push_bit ARM_LPAE_MAX_ADDR_BITS 1 - 1))"

definition pfn_to_iopte :: "64 word \<Rightarrow> arm_lpae_io_pgtable \<Rightarrow> arm_lpae_iopte" where
  "pfn_to_iopte pfn d =
     push_bit (pg_shift d) pfn AND (push_bit ARM_LPAE_MAX_ADDR_BITS 1 - 1)"

subsection \<open>Memory, the page allocator and the TLB hooks\<close>

text \<open>
  The memory holds one descriptor at each 8-byte aligned address. \<open>pool\<close> lists what the
  page allocator will return to the coming requests, 0 standing for a failed allocation
  (\<open>NULL\<close>). \<open>trace\<close> records the calls of the TLB hooks and of the page freer, the most
  recent first. \<open>suppress_map_failures\<close> is the static flag of the source.
  \<open>split_table\<close> is the address of the local variable \<open>table\<close> of
  \<open>arm_lpae_split_blk_unmap\<close>, whose address the source passes on: the variable is a
  cell of the memory.
\<close>

datatype hook =
  Flush_pgtable "64 word" "64 word"
| Tlb_flush_all
| Free_pages "64 word" "64 word"

record pt_state =
  mem :: "64 word \<Rightarrow> arm_lpae_iopte"
  pool :: "64 word list"
  trace :: "hook list"
  suppress_map_failures :: bool
  split_table :: "64 word"

definition flush_pgtable :: "64 word \<Rightarrow> 64 word \<Rightarrow> pt_state \<Rightarrow> pt_state" where
  "flush_pgtable ptr len s = s\<lparr>trace := Flush_pgtable ptr len # trace s\<rparr>"

definition tlb_flush_all :: "pt_state \<Rightarrow> pt_state" where
  "tlb_flush_all s = s\<lparr>trace := Tlb_flush_all # trace s\<rparr>"

definition memset0 :: "64 word \<Rightarrow> 64 word \<Rightarrow> pt_state \<Rightarrow> pt_state" where
  "memset0 p len s = s\<lparr>mem := (\<lambda>a. if a - p < len then 0 else mem s a)\<rparr>"

text \<open>
  Modelled from the spec: \<open>io_pgtable_alloc_pages_exact\<close> and
  \<open>io_pgtable_free_pages_exact\<close> (io-pgtable.c) are not among the sources. The page
  allocator returns zeroed, physically contiguous chunks of the requested size, or fails;
  the freer is its inverse. All callers pass \<open>__GFP_ZERO\<close>.
\<close>

definition io_pgtable_alloc_pages_exact :: "64 word \<Rightarrow> pt_state \<Rightarrow> 64 word \<times> pt_state" where
  "io_pgtable_alloc_pages_exact sz s =
     (case pool s of
        [] \<Rightarrow> (0, s)
      | p # ps \<Rightarrow> if p = 0 then (0, s\<lparr>pool := ps\<rparr>) else (p, memset0 p sz (s\<lparr>pool := ps\<rparr>)))"

definition io_pgtable_free_pages_exact :: "64 word \<Rightarrow> 64 word \<Rightarrow> pt_state \<Rightarrow> pt_state" where
  "io_pgtable_free_pages_exact p sz s = s\<lparr>trace := Free_pages p sz # trace s\<rparr>"

subsection \<open>Installing a leaf\<close>

text \<open>
  The functions below return an option: \<open>None\<close> stands for a call that does not return,
  because the kernel stops at a \<open>BUG()\<close> or because a loop runs forever. A \<open>NULL\<close>
  pointer is the address 0.
\<close>

text \<open>The descriptor that \<open>arm_lpae_init_pte\<close> builds in its local variable \<open>pte\<close>.\<close>

definition init_pte_value ::
  "arm_lpae_io_pgtable \<Rightarrow> 64 word \<Rightarrow> arm_lpae_iopte \<Rightarrow> int \<Rightarrow> arm_lpae_iopte" where
  "init_pte_value data paddr prot lvl =
     (let pte = prot;
          pte = (if quirk_arm_ns (iop_cfg data) then pte OR ARM_LPAE_PTE_NS else pte);
          pte = (if lvl = ARM_LPAE_MAX_LEVELS - 1 then pte OR ARM_LPAE_PTE_TYPE_PAGE
                 else pte OR ARM_LPAE_PTE_TYPE_BLOCK);
          pte = pte OR (ARM_LPAE_PTE_AF OR ARM_LPAE_PTE_SH_IS);
          pte = pte OR pfn_to_iopte (drop_bit (pg_shift data) paddr) data
      in pte)"

definition arm_lpae_init_pte ::
  "arm_lpae_io_pgtable \<Rightarrow> 64 word \<Rightarrow> 64 word \<Rightarrow> arm_lpae_iopte \<Rightarrow> int \<Rightarrow> 64 word \<Rightarrow> 64 word
   \<Rightarrow> bool \<Rightarrow> pt_state \<Rightarrow> (c_int \<times> pt_state) option" where
  "arm_lpae_init_pte data iova paddr prot lvl ptep prev_ptep flush s =
     (if mem s ptep AND ARM_LPAE_PTE_VALID \<noteq> 0 then
        (if \<not> suppress_map_failures s then None else Some (- EEXIST, s))
      else
        let pte = init_pte_value data paddr prot lvl;
            s = s\<lparr>mem := (mem s)(ptep := pte)\<rparr>;
            s = (if flush then flush_pgtable ptep 8 s else s);
            s = (if prev_ptep \<noteq> 0
                 then s\<lparr>mem := (mem s)(prev_ptep := iopte_tblcnt_add (mem s prev_ptep) 1)\<rparr>
                 else s)
        in Some (0, s))"

record map_state =
  iova_end :: "64 word"
  pgsize :: "32 word"
  pgtable :: "64 word"
  prev_pgtable :: "64 word"
  pte_start :: "64 word"
  num_pte :: "32 word"

definition MAP_STATE_LVL :: int where "MAP_STATE_LVL = 3"

definition map_state_zero :: map_state where
  "map_state_zero =
     \<lparr>iova_end = 0, pgsize = 0, pgtable = 0, prev_pgtable = 0, pte_start = 0, num_pte = 0\<rparr>"

definition flush_map_state :: "map_state \<Rightarrow> pt_state \<Rightarrow> pt_state" where
  "flush_map_state ms s =
     (if pgtable ms \<noteq> 0 then flush_pgtable (pte_start ms) (ucast (num_pte ms) * 8) s else s)"

text \<open>
  \<open>__arm_lpae_map\<close>. The argument \<open>ms\<close> is \<open>None\<close> for a \<open>NULL\<close> pointer and else holds
  the \<open>map_state\<close> pointed to; the result carries the \<open>map_state\<close> as the call leaves it.
\<close>

function arm_lpae_map_rec ::
  "arm_lpae_io_pgtable \<Rightarrow> 64 word \<Rightarrow> 64 word \<Rightarrow> 64 word \<Rightarrow> arm_lpae_iopte \<Rightarrow> int \<Rightarrow> 64 word
   \<Rightarrow> 64 word \<Rightarrow> map_state option \<Rightarrow> pt_state \<Rightarrow> (c_int \<times> map_state option \<times> pt_state) option"
where
  "arm_lpae_map_rec data iova paddr sz prot lvl ptep0 prev_ptep ms s =
     (let block_size = (scast (ARM_LPAE_BLOCK_SIZE lvl data) :: 64 word);
          ptep = ptep0 + 8 * ARM_LPAE_LVL_IDX iova lvl data
      in
      if sz = block_size \<and> sz AND pgsize_bitmap (iop_cfg data) \<noteq> 0 then
        (case ms of
           None \<Rightarrow>
             map_option (\<lambda>(r, s'). (r, None, s'))
               (arm_lpae_init_pte data iova paddr prot lvl ptep prev_ptep True s)
         | Some m \<Rightarrow>
             if lvl = MAP_STATE_LVL then
               map_option
                 (\<lambda>(r, s'). (r, Some \<lparr>iova_end = round_down iova SZ_2M + SZ_2M, pgsize = ucast sz,
                                       pgtable = ptep0, prev_pgtable = prev_ptep,
                                       pte_start = ptep, num_pte = 1\<rparr>, s'))
                 (arm_lpae_init_pte data iova paddr prot lvl ptep prev_ptep False
                    (flush_map_state m s))
             else
               map_option (\<lambda>(r, s'). (r, Some map_state_zero, s'))
                 (arm_lpae_init_pte data iova paddr prot lvl ptep prev_ptep True
                    (flush_map_state m s)))
      else if lvl \<ge> ARM_LPAE_MAX_LEVELS - 1 then Some (- EINVAL, ms, s)
      else if mem s ptep = 0 then
        (case io_pgtable_alloc_pages_exact (push_bit (pg_shift data) 1) s of
           (cptep, s1) \<Rightarrow>
             if cptep = 0 then Some (- ENOMEM, ms, s1)
             else
               let s2 = flush_pgtable cptep (push_bit (pg_shift data) 1) s1;
                   pte = cptep OR ARM_LPAE_PTE_TYPE_TABLE;
                   pte = (if quirk_arm_ns (iop_cfg data) then pte OR ARM_LPAE_PTE_NSTABLE else pte);
                   s3 = s2\<lparr>mem := (mem s2)(ptep := pte)\<rparr>;
                   s4 = flush_pgtable ptep 8 s3
               in arm_lpae_map_rec data iova paddr sz prot (lvl + 1) cptep ptep ms s4)
      else
        arm_lpae_map_rec data iova paddr sz prot (lvl + 1)
          (iopte_deref (mem s ptep) data) ptep ms s)"
  by pat_completeness auto
termination
  by (relation "measure (\<lambda>(data, iova, paddr, sz, prot, lvl, ptep0, prev_ptep, ms, s).
                  nat (ARM_LPAE_MAX_LEVELS - lvl))")
     (auto simp: ARM_LPAE_MAX_LEVELS_def)

definition arm_lpae_prot_to_pte :: "arm_lpae_io_pgtable \<Rightarrow> iommu_flag set \<Rightarrow> arm_lpae_iopte" where
  "arm_lpae_prot_to_pte data prot =
     (let pte =
        (if iop_fmt data = ARM_64_LPAE_S1 \<or> iop_fmt data = ARM_32_LPAE_S1 then
           let pte = ARM_LPAE_PTE_nG;
               pte = (if IOMMU_WRITE \<in> prot
                      then pte OR (if IOMMU_PRIV \<in> prot then ARM_LPAE_PTE_AP_PRIV_RW
                                   else ARM_LPAE_PTE_AP_RW)
                      else pte OR (if IOMMU_PRIV \<in> prot then ARM_LPAE_PTE_AP_PRIV_RO
                                   else ARM_LPAE_PTE_AP_RO));
               pte = (if IOMMU_CACHE \<in> prot
                      then pte OR push_bit ARM_LPAE_PTE_ATTRINDX_SHIFT ARM_LPAE_MAIR_ATTR_IDX_CACHE
                      else pte);
               pte = (if IOMMU_DEVICE \<in> prot
                      then pte OR push_bit ARM_LPAE_PTE_ATTRINDX_SHIFT ARM_LPAE_MAIR_ATTR_IDX_DEV
                      else pte)
           in pte
         else
           let pte = ARM_LPAE_PTE_HAP_FAULT;
               pte = (if IOMMU_READ \<in> prot then pte OR ARM_LPAE_PTE_HAP_READ else pte);
               pte = (if IOMMU_WRITE \<in> prot then pte OR ARM_LPAE_PTE_HAP_WRITE else pte);
               pte = (if IOMMU_CACHE \<in> prot then pte OR ARM_LPAE_PTE_MEMATTR_OIWB
                      else pte OR ARM_LPAE_PTE_MEMATTR_NC);
               pte = (if IOMMU_DEVICE \<in> prot then pte OR ARM_LPAE_PTE_MEMATTR_DEV else pte)
           in pte)
      in if IOMMU_NOEXEC \<in> prot then pte OR ARM_LPAE_PTE_XN else pte)"

definition arm_lpae_map ::
  "arm_lpae_io_pgtable \<Rightarrow> 64 word \<Rightarrow> 64 word \<Rightarrow> 64 word \<Rightarrow> iommu_flag set \<Rightarrow> pt_state
   \<Rightarrow> (c_int \<times> pt_state) option" where
  "arm_lpae_map data iova paddr sz iommu_prot s =
     (if IOMMU_READ \<notin> iommu_prot \<and> IOMMU_WRITE \<notin> iommu_prot then Some (0, s)
      else
        map_option (\<lambda>(r, ms, s'). (r, s'))
          (arm_lpae_map_rec data iova paddr sz (arm_lpae_prot_to_pte data iommu_prot)
             (ARM_LPAE_START_LVL data) (pgd data) 0 None s))"

subsection \<open>Translation\<close>

text \<open>
  The loop of \<open>arm_lpae_iova_to_phys\<close>, entered at level \<open>lvl\<close> with the table \<open>ptep\<close>.
  The source enters the loop body before it tests \<open>++lvl < ARM_LPAE_MAX_LEVELS\<close>.
\<close>

function iova_to_phys_walk ::
  "arm_lpae_io_pgtable \<Rightarrow> 64 word \<Rightarrow> int \<Rightarrow> 64 word \<Rightarrow> pt_state \<Rightarrow> 64 word" where
  "iova_to_phys_walk data iova lvl ptep s =
     (if ptep = 0 then 0
      else
        let pte = mem s (ptep + 8 * ARM_LPAE_LVL_IDX iova lvl data) in
        if pte = 0 then 0
        else if iopte_leaf pte lvl then
          push_bit (pg_shift data) (iopte_to_pfn pte data)
          OR (iova AND scast (int_shl1 (ARM_LPAE_LVL_SHIFT lvl data) - 1))
        else if lvl + 1 < ARM_LPAE_MAX_LEVELS
        then iova_to_phys_walk data iova (lvl + 1) (iopte_deref pte data) s
        else 0)"
  by pat_completeness auto
termination
  by (relation "measure (\<lambda>(data, iova, lvl, ptep, s). nat (ARM_LPAE_MAX_LEVELS - lvl))")
     (auto simp: ARM_LPAE_MAX_LEVELS_def)

definition arm_lpae_iova_to_phys :: "arm_lpae_io_pgtable \<Rightarrow> 64 word \<Rightarrow> pt_state \<Rightarrow> 64 word" where
  "arm_lpae_iova_to_phys data iova s =
     iova_to_phys_walk data iova (ARM_LPAE_START_LVL data) (pgd data) s"

subsection \<open>Freeing tables\<close>

definition table_size :: "arm_lpae_io_pgtable \<Rightarrow> int \<Rightarrow> 64 word" where
  "table_size data lvl =
     (if lvl = ARM_LPAE_START_LVL data then pgd_size data else push_bit (pg_shift data) 1)"

text \<open>
  \<open>__arm_lpae_free_pgtable\<close>: \<open>free_pgtable_walk data lvl start ptep\<close> is the loop over the
  entries of the table \<open>start\<close> of level \<open>lvl\<close>, standing at \<open>ptep\<close>; tables at the last
  level are freed without a look at their entries.
\<close>

partial_function (option) free_pgtable_walk ::
  "arm_lpae_io_pgtable \<Rightarrow> int \<Rightarrow> 64 word \<Rightarrow> 64 word \<Rightarrow> pt_state \<Rightarrow> pt_state option" where
  "free_pgtable_walk data lvl start ptep s =
     (if lvl = ARM_LPAE_MAX_LEVELS - 1 \<or> ptep = start + table_size data lvl
      then Some (io_pgtable_free_pages_exact start (table_size data lvl) s)
      else if mem s ptep = 0 \<or> iopte_leaf (mem s ptep) lvl
      then free_pgtable_walk data lvl start (ptep + 8) s
      else
        Option.bind
          (free_pgtable_walk data (lvl + 1) (iopte_deref (mem s ptep) data)
             (iopte_deref (mem s ptep) data) s)
          (\<lambda>s'. free_pgtable_walk data lvl start (ptep + 8) s'))"

definition arm_lpae_free_pgtable_rec ::
  "arm_lpae_io_pgtable \<Rightarrow> int \<Rightarrow> 64 word \<Rightarrow> pt_state \<Rightarrow> pt_state option" where
  "arm_lpae_free_pgtable_rec data lvl ptep s = free_pgtable_walk data lvl ptep ptep s"

subsection \<open>Unmapping\<close>

text \<open>
  The loop of \<open>arm_lpae_split_blk_unmap\<close>. Its result is \<open>True\<close> when the loop runs to its
  end and \<open>False\<close> when a sub-block could not be installed (the function then returns 0).
\<close>

partial_function (option) split_blk_loop ::
  "arm_lpae_io_pgtable \<Rightarrow> 64 word \<Rightarrow> 64 word \<Rightarrow> arm_lpae_iopte \<Rightarrow> int \<Rightarrow> 64 word
   \<Rightarrow> 64 word \<Rightarrow> 64 word \<Rightarrow> 64 word \<Rightarrow> pt_state \<Rightarrow> (bool \<times> pt_state) option" where
  "split_blk_loop data iova sz prot lvl prev_ptep blk_start blk_end blk_paddr s =
     (if blk_start < blk_end then
        if blk_start = iova
        then split_blk_loop data iova sz prot lvl prev_ptep (blk_start + sz) blk_end
               (blk_paddr + sz) s
        else
          (case arm_lpae_map_rec data blk_start blk_paddr sz prot lvl
                  (split_table s - 8 * ARM_LPAE_LVL_IDX blk_start lvl data) prev_ptep None s of
             None \<Rightarrow> None
           | Some (r, ms, s') \<Rightarrow>
               if sint r < 0 then
                 (if mem s' (split_table s') \<noteq> 0
                  then map_option (Pair False)
                         (arm_lpae_free_pgtable_rec data (lvl + 1)
                            (iopte_deref (mem s' (split_table s')) data) s')
                  else Some (False, s'))
               else split_blk_loop data iova sz prot lvl prev_ptep (blk_start + sz) blk_end
                      (blk_paddr + sz) s')
      else Some (True, s))"

definition arm_lpae_split_blk_unmap ::
  "arm_lpae_io_pgtable \<Rightarrow> 64 word \<Rightarrow> 64 word \<Rightarrow> arm_lpae_iopte \<Rightarrow> int \<Rightarrow> 64 word \<Rightarrow> 64 word
   \<Rightarrow> 64 word \<Rightarrow> pt_state \<Rightarrow> (c_int \<times> pt_state) option" where
  "arm_lpae_split_blk_unmap data iova sz0 prot lvl ptep prev_ptep blk_size s0 =
     (let s = s0\<lparr>mem := (mem s0)(split_table s0 := 0)\<rparr>;
          blk_start = iova AND NOT (blk_size - 1);
          blk_end = blk_start + blk_size;
          blk_paddr = push_bit (pg_shift data) (iopte_to_pfn (mem s ptep) data);
          sz = (scast (ARM_LPAE_BLOCK_SIZE (lvl + 1) data) :: 64 word)
      in case split_blk_loop data iova sz prot lvl prev_ptep blk_start blk_end blk_paddr s of
           None \<Rightarrow> None
         | Some (False, s') \<Rightarrow> Some (0, s')
         | Some (True, s') \<Rightarrow>
             Some (ucast sz,
                   flush_pgtable ptep 8 (s'\<lparr>mem := (mem s')(ptep := mem s' (split_table s'))\<rparr>)))"

text \<open>
  \<open>__arm_lpae_unmap\<close>. \<open>unmap_entries\<close> is the number of page descriptors that the
  branch for a table at the second-to-last level clears, as the source computes it in
  \<open>int\<close>.
\<close>

definition unmap_entries :: "arm_lpae_io_pgtable \<Rightarrow> 64 word \<Rightarrow> 64 word \<Rightarrow> int \<Rightarrow> c_int" where
  "unmap_entries data iova sz lvl =
     (let tl_offset = (ucast (ARM_LPAE_LVL_IDX iova (lvl + 1) data) :: c_int);
          entry_size = int_shl1 (pg_shift data);
          max_entries = int_div (ARM_LPAE_BLOCK_SIZE lvl data) entry_size
      in int_min (ucast (sz div scast entry_size)) (max_entries - tl_offset))"

definition unmap_table_entries ::
  "arm_lpae_io_pgtable \<Rightarrow> 64 word \<Rightarrow> 64 word \<Rightarrow> int \<Rightarrow> 64 word \<Rightarrow> pt_state \<Rightarrow> c_int \<times> pt_state" where
  "unmap_table_entries data iova sz lvl ptep s =
     (let pte = mem s ptep;
          table_base = iopte_deref pte data;
          tl_offset = (ucast (ARM_LPAE_LVL_IDX iova (lvl + 1) data) :: c_int);
          entry_size = int_shl1 (pg_shift data);
          max_entries = int_div (ARM_LPAE_BLOCK_SIZE lvl data) entry_size;
          entries = unmap_entries data iova sz lvl;
          table_len = (ucast ((scast entries :: 64 word) * 8) :: c_int);
          tbl = table_base + 8 * scast tl_offset;
          s = memset0 tbl (scast table_len) s;
          s = flush_pgtable tbl (scast table_len) s;
          s = s\<lparr>mem := (mem s)(ptep := iopte_tblcnt_sub (mem s ptep) entries)\<rparr>;
          s = (if iopte_tblcnt (mem s ptep) = 0
               then io_pgtable_free_pages_exact table_base (scast max_entries * 8)
                      (flush_pgtable ptep 8 (s\<lparr>mem := (mem s)(ptep := 0)\<rparr>))
               else s)
      in (entries * entry_size, s))"

partial_function (option) arm_lpae_unmap_rec ::
  "arm_lpae_io_pgtable \<Rightarrow> 64 word \<Rightarrow> 64 word \<Rightarrow> int \<Rightarrow> 64 word \<Rightarrow> 64 word \<Rightarrow> pt_state
   \<Rightarrow> (c_int \<times> pt_state) option" where
  "arm_lpae_unmap_rec data iova sz lvl ptep0 prev_ptep s =
     (if mem s (ptep0 + 8 * ARM_LPAE_LVL_IDX iova lvl data) = 0 \<or> lvl = ARM_LPAE_MAX_LEVELS
      then Some (0, s)
      else if sz = scast (ARM_LPAE_BLOCK_SIZE lvl data) then
        (if \<not> iopte_leaf (mem s (ptep0 + 8 * ARM_LPAE_LVL_IDX iova lvl data)) lvl
         then map_option (Pair (ucast sz))
                (arm_lpae_free_pgtable_rec data (lvl + 1)
                   (iopte_deref (mem s (ptep0 + 8 * ARM_LPAE_LVL_IDX iova lvl data)) data)
                   (flush_pgtable (ptep0 + 8 * ARM_LPAE_LVL_IDX iova lvl data) 8
                      (s\<lparr>mem := (mem s)(ptep0 + 8 * ARM_LPAE_LVL_IDX iova lvl data := 0)\<rparr>)))
         else Some (ucast sz,
                flush_pgtable (ptep0 + 8 * ARM_LPAE_LVL_IDX iova lvl data) 8
                  (s\<lparr>mem := (mem s)(ptep0 + 8 * ARM_LPAE_LVL_IDX iova lvl data := 0)\<rparr>)))
      else if lvl = ARM_LPAE_MAX_LEVELS - 2
              \<and> \<not> iopte_leaf (mem s (ptep0 + 8 * ARM_LPAE_LVL_IDX iova lvl data)) lvl
      then Some (unmap_table_entries data iova sz lvl (ptep0 + 8 * ARM_LPAE_LVL_IDX iova lvl data) s)
      else if iopte_leaf (mem s (ptep0 + 8 * ARM_LPAE_LVL_IDX iova lvl data)) lvl
      then arm_lpae_split_blk_unmap data iova sz
             (iopte_prot (mem s (ptep0 + 8 * ARM_LPAE_LVL_IDX iova lvl data))) lvl
             (ptep0 + 8 * ARM_LPAE_LVL_IDX iova lvl data) prev_ptep
             (scast (ARM_LPAE_BLOCK_SIZE lvl data)) s
      else arm_lpae_unmap_rec data iova sz (lvl + 1)
             (iopte_deref (mem s (ptep0 + 8 * ARM_LPAE_LVL_IDX iova lvl data)) data)
             (ptep0 + 8 * ARM_LPAE_LVL_IDX iova lvl data) s)"

text \<open>
  Modelled from the spec: \<open>iommu_pgsize\<close> (iommu.c) is not among the sources. It picks
  the largest page size of the bitmap that the alignment of the address allows and that does
  not exceed the size, and stops at a \<open>BUG_ON\<close> when there is none.
\<close>

definition iommu_pgsize :: "64 word \<Rightarrow> 64 word \<Rightarrow> 64 word \<Rightarrow> 64 word option" where
  "iommu_pgsize bitmap addr_merge sz =
     (let pgsize_idx = fls sz;
          pgsize_idx = (if addr_merge \<noteq> 0 then min pgsize_idx (ffs addr_merge) else pgsize_idx);
          pgsize = (push_bit (pgsize_idx + 1) 1 - 1) AND bitmap
      in if pgsize = 0 then None else Some (push_bit (fls pgsize) 1))"

text \<open>The \<open>while\<close> loop of \<open>arm_lpae_unmap\<close>; \<open>ret\<close> is a \<open>size_t\<close> that takes an \<open>int\<close>.\<close>

partial_function (option) unmap_loop ::
  "arm_lpae_io_pgtable \<Rightarrow> 64 word \<Rightarrow> 64 word \<Rightarrow> 64 word \<Rightarrow> pt_state \<Rightarrow> (64 word \<times> pt_state) option"
where
  "unmap_loop data sz unmapped iova s =
     (if unmapped < sz then
        (case (if sz - unmapped < SZ_2M then Some (sz - unmapped)
               else iommu_pgsize (pgsize_bitmap (iop_cfg data)) iova (sz - unmapped)) of
           None \<Rightarrow> None
         | Some size_to_unmap \<Rightarrow>
             (case arm_lpae_unmap_rec data iova size_to_unmap (ARM_LPAE_START_LVL data)
                     (pgd data) 0 s of
                None \<Rightarrow> None
              | Some (r, s') \<Rightarrow>
                  if (scast r :: 64 word) = 0 then Some (unmapped, s')
                  else unmap_loop data sz (unmapped + scast r) (iova + scast r) s'))
      else Some (unmapped, s))"

definition arm_lpae_unmap ::
  "arm_lpae_io_pgtable \<Rightarrow> 64 word \<Rightarrow> 64 word \<Rightarrow> pt_state \<Rightarrow> (64 word \<times> pt_state) option" where
  "arm_lpae_unmap data iova sz s =
     (case unmap_loop data sz 0 iova s of
        None \<Rightarrow> None
      | Some (unmapped, s') \<Rightarrow>
          Some (unmapped, if unmapped \<noteq> 0 then tlb_flush_all s' else s'))"

subsection \<open>Scatter-gather mapping\<close>

text \<open>
  A scatterlist entry: \<open>sg_phys\<close> is \<open>page_to_phys(sg_page(s))\<close>, the physical address of
  the entry's page.
\<close>

record scatterlist =
  sg_phys :: "64 word"
  sg_offset :: "32 word"
  sg_length :: "32 word"

text \<open>
  The inner \<open>while (size)\<close> loop of \<open>arm_lpae_map_sg\<close>. The boolean of the result is
  \<open>False\<close> when the loop leaves through \<open>goto out_err\<close>.
\<close>

partial_function (option) map_sg_while ::
  "arm_lpae_io_pgtable \<Rightarrow> arm_lpae_iopte \<Rightarrow> 64 word \<Rightarrow> 64 word \<Rightarrow> 64 word \<Rightarrow> 64 word
   \<Rightarrow> map_state \<Rightarrow> pt_state \<Rightarrow> (bool \<times> 64 word \<times> 64 word \<times> map_state \<times> pt_state) option" where
  "map_sg_while data prot iova phys sz mapped ms s =
     (if sz \<noteq> 0 then
        (case iommu_pgsize (pgsize_bitmap (iop_cfg data)) (iova OR phys) sz of
           None \<Rightarrow> None
         | Some pgsz \<Rightarrow>
             if pgtable ms \<noteq> 0 \<and> iova < iova_end ms then
               (case arm_lpae_init_pte data iova phys prot MAP_STATE_LVL
                       (pgtable ms + 8 * ARM_LPAE_LVL_IDX iova MAP_STATE_LVL data)
                       (prev_pgtable ms) False s of
                  None \<Rightarrow> None
                | Some (ret, s') \<Rightarrow>
                    if ret \<noteq> 0 then Some (False, iova, mapped, ms, s')
                    else map_sg_while data prot (iova + pgsz) (phys + pgsz) (sz - pgsz)
                           (mapped + pgsz) (ms\<lparr>num_pte := num_pte ms + 1\<rparr>) s')
             else
               (case arm_lpae_map_rec data iova phys pgsz prot (ARM_LPAE_START_LVL data)
                       (pgd data) 0 (Some ms) s of
                  None \<Rightarrow> None
                | Some (ret, ms', s') \<Rightarrow>
                    if ret \<noteq> 0
                    then Some (False, iova, mapped, case ms' of None \<Rightarrow> ms | Some m \<Rightarrow> m, s')
                    else map_sg_while data prot (iova + pgsz) (phys + pgsz) (sz - pgsz)
                           (mapped + pgsz) (case ms' of None \<Rightarrow> ms | Some m \<Rightarrow> m) s'))
      else Some (True, iova, mapped, ms, s))"

text \<open>The \<open>for_each_sg\<close> loop over the \<open>nents\<close> entries of the list.\<close>

fun map_sg_list ::
  "arm_lpae_io_pgtable \<Rightarrow> arm_lpae_iopte \<Rightarrow> 32 word \<Rightarrow> scatterlist list \<Rightarrow> 64 word \<Rightarrow> 64 word
   \<Rightarrow> map_state \<Rightarrow> pt_state \<Rightarrow> (bool \<times> 64 word \<times> map_state \<times> pt_state) option" where
  "map_sg_list data prot min_pagesz [] iova mapped ms s = Some (True, mapped, ms, s)"
| "map_sg_list data prot min_pagesz (c # cs) iova mapped ms s =
     (if sg_offset c AND (min_pagesz - 1) \<noteq> 0 then Some (False, mapped, ms, s)
      else
        (case map_sg_while data prot iova (sg_phys c + ucast (sg_offset c)) (ucast (sg_length c))
                mapped ms s of
           None \<Rightarrow> None
         | Some (ok, iova', mapped', ms', s') \<Rightarrow>
             if ok then map_sg_list data prot min_pagesz cs iova' mapped' ms' s'
             else Some (False, mapped', ms', s')))"

text \<open>
  \<open>arm_lpae_map_sg\<close> returns an \<open>int\<close> and, when it fails, stores the number of bytes
  mapped so far through the pointer \<open>size\<close>: the second component of the result is the value
  of \<open>*size\<close> after the call, \<open>size_in\<close> being its value before.
\<close>

definition arm_lpae_map_sg ::
  "arm_lpae_io_pgtable \<Rightarrow> 64 word \<Rightarrow> scatterlist list \<Rightarrow> iommu_flag set \<Rightarrow> 64 word \<Rightarrow> pt_state
   \<Rightarrow> (c_int \<times> 64 word \<times> pt_state) option" where
  "arm_lpae_map_sg data iova sg iommu_prot size_in s =
     (if IOMMU_READ \<notin> iommu_prot \<and> IOMMU_WRITE \<notin> iommu_prot then Some (0, 0, s)
      else
        (case map_sg_list data (arm_lpae_prot_to_pte data iommu_prot)
                (int_shl1 (ffs (pgsize_bitmap (iop_cfg data)))) sg iova 0 map_state_zero s of
           None \<Rightarrow> None
         | Some (True, mapped, ms, s') \<Rightarrow> Some (ucast mapped, size_in, flush_map_state ms s')
         | Some (False, mapped, ms, s') \<Rightarrow> Some (0, mapped, s')))"

subsection \<open>Construction\<close>

text \<open>
  \<open>PAGE_SIZE\<close> is the page size of the CPU the kernel is built for, 4 KiB on this
  platform; \<open>PAGE_MASK\<close> is \<open>~(PAGE_SIZE - 1)\<close>.
\<close>

definition PAGE_SIZE :: "64 word" where "PAGE_SIZE = 0x1000"
definition PAGE_MASK :: "64 word" where "PAGE_MASK = NOT (PAGE_SIZE - 1)"

definition arm_lpae_restrict_pgsizes :: "io_pgtable_cfg \<Rightarrow> io_pgtable_cfg" where
  "arm_lpae_restrict_pgsizes cfg =
     (let granule =
        (if pgsize_bitmap cfg AND PAGE_SIZE \<noteq> 0 then PAGE_SIZE
         else if pgsize_bitmap cfg AND NOT PAGE_MASK \<noteq> 0
         then push_bit (fls (pgsize_bitmap cfg AND NOT PAGE_MASK)) 1
         else if pgsize_bitmap cfg AND PAGE_MASK \<noteq> 0
         then push_bit (ffs (pgsize_bitmap cfg AND PAGE_MASK)) 1
         else 0)
      in if granule = SZ_4K
         then cfg\<lparr>pgsize_bitmap := pgsize_bitmap cfg AND (SZ_4K OR SZ_2M OR SZ_1G)\<rparr>
         else if granule = SZ_16K
         then cfg\<lparr>pgsize_bitmap := pgsize_bitmap cfg AND (SZ_16K OR SZ_32M)\<rparr>
         else if granule = SZ_64K
         then cfg\<lparr>pgsize_bitmap := pgsize_bitmap cfg AND (SZ_64K OR SZ_512M)\<rparr>
         else cfg\<lparr>pgsize_bitmap := 0\<rparr>)"

definition DIV_ROUND_UP :: "64 word \<Rightarrow> 64 word \<Rightarrow> 64 word" where
  "DIV_ROUND_UP n d = (n + d - 1) div d"

text \<open>
  \<open>arm_lpae_alloc_pgtable\<close> changes the configuration in place and returns \<open>NULL\<close>
  (\<open>None\<close>) or the new page-table data. \<open>kmalloc\<close> is what the kernel's allocator returns
  for the data structure: \<open>None\<close> when it fails, else the structure (whose
  \<open>iop\<close> part the caller fills in).
\<close>

definition arm_lpae_alloc_pgtable ::
  "io_pgtable_cfg \<Rightarrow> arm_lpae_io_pgtable option
   \<Rightarrow> arm_lpae_io_pgtable option \<times> io_pgtable_cfg" where
  "arm_lpae_alloc_pgtable cfg0 kmalloc =
     (let cfg = arm_lpae_restrict_pgsizes cfg0 in
      if pgsize_bitmap cfg AND (SZ_4K OR SZ_16K OR SZ_64K) = 0 then (None, cfg)
      else if ias cfg > of_nat ARM_LPAE_MAX_ADDR_BITS then (None, cfg)
      else if oas cfg > of_nat ARM_LPAE_MAX_ADDR_BITS then (None, cfg)
      else
        (case kmalloc of
           None \<Rightarrow> (None, cfg)
         | Some data \<Rightarrow>
             let pgshift = ffs (pgsize_bitmap cfg);
                 bpl = pgshift - 3;
                 va_bits = (ucast (ias cfg) :: 64 word) - of_nat pgshift;
                 lvls = (ucast (DIV_ROUND_UP va_bits (of_nat bpl)) :: c_int);
                 pgd_bits = va_bits - of_nat bpl * scast (lvls - 1)
             in (Some (data\<lparr>levels := sint lvls,
                             pgd_size := push_bit (unat (pgd_bits + 3)) 1,
                             pg_shift := pgshift,
                             bits_per_level := bpl\<rparr>), cfg)))"

definition ARM_LPAE_TCR_TG0_4K :: "64 word" where "ARM_LPAE_TCR_TG0_4K = push_bit 14 0"
definition ARM_LPAE_TCR_TG0_64K :: "64 word" where "ARM_LPAE_TCR_TG0_64K = push_bit 14 1"
definition ARM_LPAE_TCR_TG0_16K :: "64 word" where "ARM_LPAE_TCR_TG0_16K = push_bit 14 2"
definition ARM_LPAE_TCR_SH0_SHIFT :: nat where "ARM_LPAE_TCR_SH0_SHIFT = 12"
definition ARM_LPAE_TCR_SH_IS :: "64 word" where "ARM_LPAE_TCR_SH_IS = 3"
definition ARM_LPAE_TCR_ORGN0_SHIFT :: nat where "ARM_LPAE_TCR_ORGN0_SHIFT = 10"
definition ARM_LPAE_TCR_IRGN0_SHIFT :: nat where "ARM_LPAE_TCR_IRGN0_SHIFT = 8"
definition ARM_LPAE_TCR_RGN_NC :: "64 word" where "ARM_LPAE_TCR_RGN_NC = 0"
definition ARM_LPAE_TCR_RGN_WBWA :: "64 word" where "ARM_LPAE_TCR_RGN_WBWA = 1"
definition ARM_LPAE_TCR_SL0_SHIFT :: nat where "ARM_LPAE_TCR_SL0_SHIFT = 6"
definition ARM_LPAE_TCR_SL0_MASK :: "64 word" where "ARM_LPAE_TCR_SL0_MASK = 0x3"
definition ARM_LPAE_TCR_T0SZ_SHIFT :: nat where "ARM_LPAE_TCR_T0SZ_SHIFT = 0"
definition ARM_LPAE_TCR_PS_SHIFT :: nat where "ARM_LPAE_TCR_PS_SHIFT = 16"
definition ARM_LPAE_TCR_IPS_SHIFT :: nat where "ARM_LPAE_TCR_IPS_SHIFT = 32"
definition ARM_LPAE_TCR_PS_32_BIT :: "64 word" where "ARM_LPAE_TCR_PS_32_BIT = 0x0"
definition ARM_LPAE_TCR_PS_36_BIT :: "64 word" where "ARM_LPAE_TCR_PS_36_BIT = 0x1"
definition ARM_LPAE_TCR_PS_40_BIT :: "64 word" where "ARM_LPAE_TCR_PS_40_BIT = 0x2"
definition ARM_LPAE_TCR_PS_42_BIT :: "64 word" where "ARM_LPAE_TCR_PS_42_BIT = 0x3"
definition ARM_LPAE_TCR_PS_44_BIT :: "64 word" where "ARM_LPAE_TCR_PS_44_BIT = 0x4"
definition ARM_LPAE_TCR_PS_48_BIT :: "64 word" where "ARM_LPAE_TCR_PS_48_BIT = 0x5"
definition ARM_LPAE_TCR_EPD1_SHIFT :: nat where "ARM_LPAE_TCR_EPD1_SHIFT = 23"
definition ARM_LPAE_TCR_EPD1_FAULT :: "64 word" where "ARM_LPAE_TCR_EPD1_FAULT = 1"

text \<open>
  \<open>ARM_64_LPAE_S2_TCR_RES1\<close> is the \<open>int\<close> \<open>1 << 31\<close>: the source ORs it with small
  non-negative \<open>int\<close>s and stores the result in a \<open>u64\<close>, which sign-extends it, so that
  the bits 31 to 63 of the register word are set.
\<close>

definition ARM_64_LPAE_S2_TCR_RES1 :: "64 word" where
  "ARM_64_LPAE_S2_TCR_RES1 = scast (int_shl1 31)"

definition ARM_LPAE_MAIR_ATTR_SHIFT :: "nat \<Rightarrow> nat" where "ARM_LPAE_MAIR_ATTR_SHIFT n = push_bit 3 n"
definition ARM_LPAE_MAIR_ATTR_DEVICE :: "64 word" where "ARM_LPAE_MAIR_ATTR_DEVICE = 0x04"
definition ARM_LPAE_MAIR_ATTR_NC :: "64 word" where "ARM_LPAE_MAIR_ATTR_NC = 0x44"
definition ARM_LPAE_MAIR_ATTR_WBRWA :: "64 word" where "ARM_LPAE_MAIR_ATTR_WBRWA = 0xff"

text \<open>The two \<open>switch\<close> statements of the constructors; \<open>None\<close> is the \<open>default\<close> case.\<close>

definition tcr_tg0 :: "c_int \<Rightarrow> 64 word \<Rightarrow> 64 word" where
  "tcr_tg0 granule reg =
     (if granule = 0x1000 then reg OR ARM_LPAE_TCR_TG0_4K
      else if granule = 0x4000 then reg OR ARM_LPAE_TCR_TG0_16K
      else if granule = 0x10000 then reg OR ARM_LPAE_TCR_TG0_64K
      else reg)"

definition tcr_ps :: "32 word \<Rightarrow> 64 word option" where
  "tcr_ps oas_bits =
     (if oas_bits = 32 then Some ARM_LPAE_TCR_PS_32_BIT
      else if oas_bits = 36 then Some ARM_LPAE_TCR_PS_36_BIT
      else if oas_bits = 40 then Some ARM_LPAE_TCR_PS_40_BIT
      else if oas_bits = 42 then Some ARM_LPAE_TCR_PS_42_BIT
      else if oas_bits = 44 then Some ARM_LPAE_TCR_PS_44_BIT
      else if oas_bits = 48 then Some ARM_LPAE_TCR_PS_48_BIT
      else None)"

definition arm_64_lpae_alloc_pgtable_s1 ::
  "io_pgtable_cfg \<Rightarrow> arm_lpae_io_pgtable option \<Rightarrow> pt_state
   \<Rightarrow> arm_lpae_io_pgtable option \<times> io_pgtable_cfg \<times> pt_state" where
  "arm_64_lpae_alloc_pgtable_s1 cfg0 kmalloc s =
     (case arm_lpae_alloc_pgtable cfg0 kmalloc of
        (None, cfg) \<Rightarrow> (None, cfg, s)
      | (Some data, cfg) \<Rightarrow>
          let reg = push_bit ARM_LPAE_TCR_SH0_SHIFT ARM_LPAE_TCR_SH_IS
                    OR push_bit ARM_LPAE_TCR_IRGN0_SHIFT ARM_LPAE_TCR_RGN_NC
                    OR push_bit ARM_LPAE_TCR_ORGN0_SHIFT ARM_LPAE_TCR_RGN_NC;
              reg = tcr_tg0 (int_shl1 (pg_shift data)) reg
          in (case tcr_ps (oas cfg) of
                None \<Rightarrow> (None, cfg, s)
              | Some ps \<Rightarrow>
                  let reg = reg OR push_bit ARM_LPAE_TCR_IPS_SHIFT ps;
                      reg = reg OR push_bit ARM_LPAE_TCR_T0SZ_SHIFT (64 - ucast (ias cfg));
                      reg = reg OR push_bit ARM_LPAE_TCR_EPD1_SHIFT ARM_LPAE_TCR_EPD1_FAULT;
                      cfg = cfg\<lparr>s1_tcr := reg\<rparr>;
                      reg = push_bit (ARM_LPAE_MAIR_ATTR_SHIFT 0) ARM_LPAE_MAIR_ATTR_NC
                            OR push_bit (ARM_LPAE_MAIR_ATTR_SHIFT 1) ARM_LPAE_MAIR_ATTR_WBRWA
                            OR push_bit (ARM_LPAE_MAIR_ATTR_SHIFT 2) ARM_LPAE_MAIR_ATTR_DEVICE;
                      cfg = cfg\<lparr>s1_mair0 := reg, s1_mair1 := 0\<rparr>
                  in (case io_pgtable_alloc_pages_exact (pgd_size data) s of
                        (p, s1) \<Rightarrow>
                          if p = 0 then (None, cfg, s1)
                          else (Some (data\<lparr>pgd := p\<rparr>),
                                cfg\<lparr>s1_ttbr0 := p, s1_ttbr1 := 0\<rparr>,
                                flush_pgtable p (pgd_size data) s1))))"

definition s2_concat :: "arm_lpae_io_pgtable \<Rightarrow> arm_lpae_io_pgtable" where
  "s2_concat data =
     (if levels data = ARM_LPAE_MAX_LEVELS then
        let pgd_pages = drop_bit 3 (pgd_size data) in
        if pgd_pages \<le> ARM_LPAE_S2_MAX_CONCAT_PAGES
        then data\<lparr>pgd_size := push_bit (pg_shift data) pgd_pages, levels := levels data - 1\<rparr>
        else data
      else data)"

definition arm_64_lpae_alloc_pgtable_s2 ::
  "io_pgtable_cfg \<Rightarrow> arm_lpae_io_pgtable option \<Rightarrow> pt_state
   \<Rightarrow> arm_lpae_io_pgtable option \<times> io_pgtable_cfg \<times> pt_state" where
  "arm_64_lpae_alloc_pgtable_s2 cfg0 kmalloc s =
     (case arm_lpae_alloc_pgtable cfg0 kmalloc of
        (None, cfg) \<Rightarrow> (None, cfg, s)
      | (Some data0, cfg) \<Rightarrow>
          let data = s2_concat data0;
              reg = ARM_64_LPAE_S2_TCR_RES1
                    OR push_bit ARM_LPAE_TCR_SH0_SHIFT ARM_LPAE_TCR_SH_IS
                    OR push_bit ARM_LPAE_TCR_IRGN0_SHIFT ARM_LPAE_TCR_RGN_WBWA
                    OR push_bit ARM_LPAE_TCR_ORGN0_SHIFT ARM_LPAE_TCR_RGN_WBWA;
              sl = (word_of_int (ARM_LPAE_START_LVL data) :: 64 word);
              sl = (if int_shl1 (pg_shift data) = 0x1000 then sl + 1 else sl);
              reg = tcr_tg0 (int_shl1 (pg_shift data)) reg
          in (case tcr_ps (oas cfg) of
                None \<Rightarrow> (None, cfg, s)
              | Some ps \<Rightarrow>
                  let reg = reg OR push_bit ARM_LPAE_TCR_PS_SHIFT ps;
                      reg = reg OR push_bit ARM_LPAE_TCR_T0SZ_SHIFT (64 - ucast (ias cfg));
                      reg = reg OR push_bit ARM_LPAE_TCR_SL0_SHIFT (NOT sl AND ARM_LPAE_TCR_SL0_MASK);
                      cfg = cfg\<lparr>s2_vtcr := reg\<rparr>
                  in (case io_pgtable_alloc_pages_exact (pgd_size data) s of
                        (p, s1) \<Rightarrow>
                          if p = 0 then (None, cfg, s1)
                          else (Some (data\<lparr>pgd := p\<rparr>),
                                cfg\<lparr>s2_vttbr := p\<rparr>,
                                flush_pgtable p (pgd_size data) s1))))"

subsection \<open>The field codes of the register words\<close>

text \<open>
  The architecture's encodings of the granule in \<open>TG0\<close> and of the output address size
  in \<open>IPS\<close>, as the claims about the register words use them.
\<close>

definition tg0_code :: "nat \<Rightarrow> 64 word" where
  "tg0_code sh = (if sh = 12 then 0 else if sh = 14 then 2 else 1)"

definition ips_code :: "32 word \<Rightarrow> 64 word" where
  "ips_code bits =
     (if bits = 32 then 0 else if bits = 36 then 1 else if bits = 40 then 2
      else if bits = 42 then 3 else if bits = 44 then 4 else 5)"

subsection \<open>Example configurations\<close>

text \<open>
  A configuration with the page sizes 4 KiB, 2 MiB and 1 GiB; the data of a Stage-1 table
  of 4 levels for it, with its root at \<open>0x10000\<close>; and a state with an empty memory and
  five free pages.
\<close>

definition cfg_4k :: "32 word \<Rightarrow> 32 word \<Rightarrow> io_pgtable_cfg" where
  "cfg_4k ias_bits oas_bits =
     \<lparr>quirk_arm_ns = False, pgsize_bitmap = 0x40201000, ias = ias_bits, oas = oas_bits,
      s1_tcr = 0, s1_mair0 = 0, s1_mair1 = 0, s1_ttbr0 = 0, s1_ttbr1 = 0, s2_vtcr = 0,
      s2_vttbr = 0\<rparr>"

definition d0 :: arm_lpae_io_pgtable where
  "d0 = \<lparr>iop_cfg = cfg_4k 48 48, iop_fmt = ARM_64_LPAE_S1, levels = 4, pgd_size = 0x1000,
          pg_shift = 12, bits_per_level = 9, pgd = 0x10000\<rparr>"

definition s0 :: pt_state where
  "s0 = \<lparr>mem = (\<lambda>_. 0), pool = [0x20000, 0x30000, 0x40000, 0x50000, 0x60000], trace = [],
          suppress_map_failures = True, split_table = 0x8000\<rparr>"

text \<open>
  States reached from \<open>s0\<close>: \<open>s_blk\<close> after a 2 MiB block is mapped at 1 GiB, and \<open>s_blk2\<close>
  after a page is then mapped inside that block; \<open>s_one\<close> and \<open>s_two\<close> after pages are
  mapped at 0 and at \<open>0x2000\<close>, and \<open>s_three\<close> after the page at \<open>0x1000\<close> is then
  unmapped.
\<close>

definition s_blk :: pt_state where
  "s_blk = snd (the (arm_lpae_map d0 0x40000000 0x80000000 0x200000 {IOMMU_READ, IOMMU_WRITE} s0))"

definition s_blk2 :: pt_state where
  "s_blk2 = snd (the (arm_lpae_map d0 0x40001000 0x5000 0x1000 {IOMMU_READ} s_blk))"

definition s_one :: pt_state where
  "s_one = snd (the (arm_lpae_map d0 0 0 0x1000 {IOMMU_READ, IOMMU_WRITE} s0))"

definition s_two :: pt_state where
  "s_two = snd (the (arm_lpae_map d0 0x2000 0x2000 0x1000 {IOMMU_READ, IOMMU_WRITE} s_one))"

definition s_three :: pt_state where
  "s_three = snd (the (arm_lpae_unmap d0 0x1000 0x1000 s_two))"

text \<open>
  Scatterlists of 4 KiB chunks: in \<open>sg_bad\<close> the second chunk has an offset that is not a
  multiple of the page size, in \<open>sg_bad1\<close> the first one; \<open>s_sg\<close> is the state that
  \<open>map_sg\<close> of \<open>sg_bad\<close> leaves.
\<close>

definition sg_bad :: "scatterlist list" where
  "sg_bad = [\<lparr>sg_phys = 0x100000, sg_offset = 0, sg_length = 0x1000\<rparr>,
             \<lparr>sg_phys = 0x200000, sg_offset = 0x10, sg_length = 0x1000\<rparr>]"

definition sg_bad1 :: "scatterlist list" where
  "sg_bad1 = [\<lparr>sg_phys = 0x200000, sg_offset = 0x10, sg_length = 0x1000\<rparr>]"

definition s_sg :: pt_state where
  "s_sg = snd (snd (the (arm_lpae_map_sg d0 0 sg_bad {IOMMU_READ, IOMMU_WRITE} 0 s0)))"

subsection \<open>The path of a mapping\<close>

text \<open>
  The configurations that \<open>arm_lpae_alloc_pgtable\<close> builds: a granule of 4, 16 or 64 KiB,
  descriptors of 8 bytes, and one to four levels.
\<close>

definition geom_ok :: "arm_lpae_io_pgtable \<Rightarrow> bool" where
  "geom_ok d =
     ((pg_shift d = 12 \<or> pg_shift d = 14 \<or> pg_shift d = 16)
      \<and> bits_per_level d = pg_shift d - 3 \<and> 1 \<le> levels d \<and> levels d \<le> 4)"

text \<open>The test of \<open>__arm_lpae_map\<close> for the level at which it installs the leaf.\<close>

definition leaf_here :: "arm_lpae_io_pgtable \<Rightarrow> 64 word \<Rightarrow> int \<Rightarrow> bool" where
  "leaf_here d sz lvl =
     (sz = scast (ARM_LPAE_BLOCK_SIZE lvl d) \<and> sz AND pgsize_bitmap (iop_cfg d) \<noteq> 0)"

text \<open>
  The tables and the slots that \<open>__arm_lpae_map\<close> visits in the state in which it is called,
  from the table \<open>tbl\<close> at level \<open>lvl\<close> down to the slot of the leaf or to the first empty
  slot, below which it allocates the tables.
\<close>

function map_path ::
  "arm_lpae_io_pgtable \<Rightarrow> 64 word \<Rightarrow> 64 word \<Rightarrow> int \<Rightarrow> 64 word \<Rightarrow> pt_state
   \<Rightarrow> (64 word \<times> 64 word) list" where
  "map_path d iova sz lvl tbl s =
     (if leaf_here d sz lvl \<or> lvl \<ge> ARM_LPAE_MAX_LEVELS - 1
         \<or> mem s (tbl + 8 * ARM_LPAE_LVL_IDX iova lvl d) = 0
      then [(tbl, tbl + 8 * ARM_LPAE_LVL_IDX iova lvl d)]
      else (tbl, tbl + 8 * ARM_LPAE_LVL_IDX iova lvl d)
           # map_path d iova sz (lvl + 1)
               (iopte_deref (mem s (tbl + 8 * ARM_LPAE_LVL_IDX iova lvl d)) d) s)"
  by pat_completeness auto
termination
  by (relation "measure (\<lambda>(d, iova, sz, lvl, tbl, s). nat (ARM_LPAE_MAX_LEVELS - lvl))")
     (auto simp: ARM_LPAE_MAX_LEVELS_def)

text \<open>
  \<open>in_page d p a\<close>: the address \<open>a\<close> lies in the granule-sized page at \<open>p\<close>. \<open>page_ok\<close>: what
  the page allocator hands out, a page that is not \<open>NULL\<close>, naturally aligned and below
  \<open>2 ^ 48\<close>.
\<close>

definition in_page :: "arm_lpae_io_pgtable \<Rightarrow> 64 word \<Rightarrow> 64 word \<Rightarrow> bool" where
  "in_page d p a = (a - p < push_bit (pg_shift d) 1)"

definition page_ok :: "arm_lpae_io_pgtable \<Rightarrow> 64 word \<Rightarrow> bool" where
  "page_ok d p = (p \<noteq> 0 \<and> p AND (push_bit (pg_shift d) 1 - 1) = 0 \<and> p < push_bit 48 1)"

text \<open>
  A path is well formed when its slots are distinct cells, none of them the parent slot
  \<open>prev\<close>, no table is at \<open>NULL\<close>, every descriptor above the last slot is a table
  descriptor (no leaf lies above the range), and the pages that the allocator will hand out
  are distinct free pages: well-formed pages that hold neither a slot of the path nor \<open>prev\<close>.
\<close>

definition path_ok ::
  "arm_lpae_io_pgtable \<Rightarrow> (64 word \<times> 64 word) list \<Rightarrow> 64 word \<Rightarrow> pt_state \<Rightarrow> bool" where
  "path_ok d path prev s =
     (distinct (map snd path) \<and> prev \<notin> set (map snd path) \<and> 0 \<notin> set (map fst path)
      \<and> list_all (\<lambda>c. iopte_type (mem s c) = ARM_LPAE_PTE_TYPE_TABLE) (map snd (butlast path))
      \<and> list_all (\<lambda>p. p = 0 \<or> (page_ok d p \<and> \<not> in_page d p prev
                                 \<and> list_all (\<lambda>c. \<not> in_page d p c) (map snd path))) (pool s)
      \<and> distinct (filter (\<lambda>p. p \<noteq> 0) (pool s)))"

text \<open>The state in which \<open>__arm_lpae_map\<close> goes on after it has installed a new table.\<close>

definition after_alloc :: "arm_lpae_io_pgtable \<Rightarrow> 64 word \<Rightarrow> 64 word \<Rightarrow> 64 word list \<Rightarrow> pt_state \<Rightarrow> pt_state" where
  "after_alloc d ptep c rest s =
     (let s1 = memset0 c (push_bit (pg_shift d) 1) (s\<lparr>pool := rest\<rparr>);
          s2 = flush_pgtable c (push_bit (pg_shift d) 1) s1;
          pte = c OR ARM_LPAE_PTE_TYPE_TABLE;
          pte = (if quirk_arm_ns (iop_cfg d) then pte OR ARM_LPAE_PTE_NSTABLE else pte);
          s3 = s2\<lparr>mem := (mem s2)(ptep := pte)\<rparr>
      in flush_pgtable ptep 8 s3)"

text \<open>
  The state after a 2 MiB block is mapped at 1 GiB in \<open>s_one\<close>, and the state after a
  \<open>map\<close> of 4 KiB in \<open>s0\<close> whose addresses are not aligned and whose physical address
  has the bit 48 set.
\<close>

definition s_unaligned :: pt_state where
  "s_unaligned =
     snd (the (arm_lpae_map d0 0x6123 0x1000000007456 0x1000 {IOMMU_READ, IOMMU_WRITE} s0))"

definition s_one_blk :: pt_state where
  "s_one_blk = snd (the (arm_lpae_map d0 0x40000000 0x80000000 0x200000 {IOMMU_READ, IOMMU_WRITE} s_one))"

subsection \<open>The path to a block and the loop of its split\<close>

text \<open>
  The tables and the slots that \<open>__arm_lpae_unmap\<close> and the translation walk visit for an
  address, from the table \<open>tbl\<close> at level \<open>lvl\<close> down to the first slot that is empty or
  holds a leaf.
\<close>

function walk_path ::
  "arm_lpae_io_pgtable \<Rightarrow> 64 word \<Rightarrow> int \<Rightarrow> 64 word \<Rightarrow> pt_state \<Rightarrow> (64 word \<times> 64 word) list" where
  "walk_path d a lvl tbl s =
     (if mem s (tbl + 8 * ARM_LPAE_LVL_IDX a lvl d) = 0
         \<or> iopte_leaf (mem s (tbl + 8 * ARM_LPAE_LVL_IDX a lvl d)) lvl
         \<or> lvl \<ge> ARM_LPAE_MAX_LEVELS - 1
      then [(tbl, tbl + 8 * ARM_LPAE_LVL_IDX a lvl d)]
      else (tbl, tbl + 8 * ARM_LPAE_LVL_IDX a lvl d)
           # walk_path d a (lvl + 1) (iopte_deref (mem s (tbl + 8 * ARM_LPAE_LVL_IDX a lvl d)) d) s)"
  by pat_completeness auto
termination
  by (relation "measure (\<lambda>(d, a, lvl, tbl, s). nat (ARM_LPAE_MAX_LEVELS - lvl))")
     (auto simp: ARM_LPAE_MAX_LEVELS_def)

text \<open>The table descriptor that \<open>__arm_lpae_map\<close> installs for a new table at \<open>c\<close>.\<close>

definition table_pte :: "arm_lpae_io_pgtable \<Rightarrow> 64 word \<Rightarrow> arm_lpae_iopte" where
  "table_pte d c =
     (if quirk_arm_ns (iop_cfg d) then c OR ARM_LPAE_PTE_TYPE_TABLE OR ARM_LPAE_PTE_NSTABLE
      else c OR ARM_LPAE_PTE_TYPE_TABLE)"



text \<open>
  States with a 1 GiB block mapped at 1 GiB: \<open>s_gig\<close> after the \<open>map\<close> in \<open>s0\<close>,
  \<open>s_gig_hole\<close> after the \<open>unmap\<close> of the 2 MiB at \<open>0x40200000\<close>, \<open>s_gig_fail\<close> after the same
  \<open>unmap\<close> when the allocator has no page, and \<open>s_gig_page\<close> after the \<open>unmap\<close> of the
  4 KiB page at \<open>0x40001000\<close>.
\<close>

definition s_gig :: pt_state where
  "s_gig = snd (the (arm_lpae_map d0 0x40000000 0x80000000 0x40000000 {IOMMU_READ, IOMMU_WRITE} s0))"




declare arm_lpae_map_rec.simps [simp del] iova_to_phys_walk.simps [simp del] map_path.simps [simp del]
  walk_path.simps [simp del]

section \<open>Bits of the descriptor constants\<close>

lemma mask_as: "push_bit n (1 :: 64 word) - 1 = mask n"
  by (simp add: mask_eq_exp_minus_1 push_bit_eq_mult)

lemma bit_pb1: "bit (push_bit k (1 :: 64 word)) n \<longleftrightarrow> n = k \<and> k < 64"
  by (auto simp: bit_simps)

lemma bit_pb0: "bit (push_bit k (0 :: 64 word)) n \<longleftrightarrow> False"
  by simp

lemma bit_pb3: "bit (push_bit k (3 :: 64 word)) n \<longleftrightarrow> (n = k \<or> n = Suc k) \<and> n < 64"
proof -
  have *: "(3 :: 64 word) = mask 2" by (simp add: mask_eq_exp_minus_1)
  show ?thesis unfolding * by (auto simp: bit_simps)
qed

lemma bit_pb2: "bit (push_bit k (2 :: 64 word)) n \<longleftrightarrow> n = Suc k \<and> n < 64"
proof -
  have *: "(2 :: 64 word) = push_bit 1 1" by simp
  show ?thesis unfolding * by (auto simp: bit_simps simp del: push_bit_of_1)
qed

lemma bit_w5: "bit (5 :: 64 word) m \<longleftrightarrow> m = 0 \<or> m = 2"
proof -
  have "bit (5 :: 64 word) m \<longleftrightarrow> bit (push_bit 2 (1 :: 64 word) OR push_bit 0 1) m" by simp
  also have "\<dots> \<longleftrightarrow> m = 0 \<or> m = 2" by (simp only: bit_or_iff bit_pb1) auto
  finally show ?thesis .
qed

lemma bit_pb5: "bit (push_bit k (5 :: 64 word)) n \<longleftrightarrow> (n = k \<or> n = k + 2) \<and> n < 64"
proof -
  have "bit (push_bit k (5 :: 64 word)) n \<longleftrightarrow> k \<le> n \<and> n < 64 \<and> (n - k = 0 \<or> n - k = 2)"
    by (simp only: bit_push_bit_iff bit_w5 possible_bit_word) simp
  then show ?thesis by auto
qed

lemma bit_pb15: "bit (push_bit k (0xf :: 64 word)) n \<longleftrightarrow> k \<le> n \<and> n < k + 4 \<and> n < 64"
proof -
  have *: "(0xf :: 64 word) = mask 4" by (simp add: mask_eq_exp_minus_1)
  show ?thesis unfolding * by (auto simp: bit_simps)
qed

lemma bit_w1: "bit (1 :: 64 word) n \<longleftrightarrow> n = 0" by (simp add: bit_1_iff)
lemma bit_w3: "bit (3 :: 64 word) n \<longleftrightarrow> n = 0 \<or> n = 1"
  using bit_pb3 [of 0 n] by auto

lemmas bit_consts = bit_pb1 bit_pb0 bit_pb3 bit_pb2 bit_pb5 bit_pb15 bit_w1 bit_w3

lemmas pte_consts = ARM_LPAE_PTE_NSTABLE_def ARM_LPAE_PTE_XN_def ARM_LPAE_PTE_AF_def ARM_LPAE_PTE_SH_IS_def
  ARM_LPAE_PTE_NS_def ARM_LPAE_PTE_VALID_def ARM_LPAE_PTE_AP_PRIV_RW_def ARM_LPAE_PTE_AP_RW_def
  ARM_LPAE_PTE_AP_PRIV_RO_def ARM_LPAE_PTE_AP_RO_def ARM_LPAE_PTE_ATTRINDX_SHIFT_def ARM_LPAE_PTE_nG_def
  ARM_LPAE_PTE_HAP_FAULT_def ARM_LPAE_PTE_HAP_READ_def ARM_LPAE_PTE_HAP_WRITE_def ARM_LPAE_PTE_MEMATTR_OIWB_def
  ARM_LPAE_PTE_MEMATTR_NC_def ARM_LPAE_PTE_MEMATTR_DEV_def ARM_LPAE_MAIR_ATTR_IDX_CACHE_def ARM_LPAE_MAIR_ATTR_IDX_DEV_def
  ARM_LPAE_PTE_TYPE_PAGE_def ARM_LPAE_PTE_TYPE_BLOCK_def ARM_LPAE_PTE_TYPE_TABLE_def

lemma bit_pfn_to_iopte:
  "bit (pfn_to_iopte (drop_bit (pg_shift data) paddr) data) n \<longleftrightarrow> pg_shift data \<le> n \<and> n < 48 \<and> bit paddr n"
  unfolding pfn_to_iopte_def ARM_LPAE_MAX_ADDR_BITS_def mask_as
  by (auto simp: bit_simps)

lemma bit_init_pte_value:
  "bit (init_pte_value data paddr prot lvl) n \<longleftrightarrow>
     bit prot n \<or> (quirk_arm_ns (iop_cfg data) \<and> n = 5) \<or> n = 0 \<or> (lvl = 3 \<and> n = 1)
     \<or> n = 10 \<or> n = 8 \<or> n = 9
     \<or> (pg_shift data \<le> n \<and> n < 48 \<and> bit paddr n)"
  unfolding init_pte_value_def pte_consts ARM_LPAE_MAX_LEVELS_def Let_def
  apply (simp only: bit_or_iff bit_pfn_to_iopte bit_consts if_distrib [of "\<lambda>w. bit w n"] split: if_splits)
  apply (simp)
  apply (cases "n < 64")
  apply (auto dest: bit_imp_le_length)
  done

lemma bit_prot_to_pte_s1_hi:
  assumes "iop_fmt data = ARM_64_LPAE_S1 \<or> iop_fmt data = ARM_32_LPAE_S1" "12 \<le> n"
  shows "bit (arm_lpae_prot_to_pte data prot) n \<longleftrightarrow> IOMMU_NOEXEC \<in> prot \<and> (n = 53 \<or> n = 54)"
  using assms
  unfolding arm_lpae_prot_to_pte_def pte_consts Let_def
  apply (simp only: bit_or_iff bit_consts if_distrib [of "\<lambda>w. bit w n"] if_True if_False split: if_splits)
  apply auto
  done

section \<open>The counter codec\<close>

lemmas codec_defs = iopte_tblcnt_def iopte_tblcnt_set_def iopte_val_def iopte_bottom_ignored_val_def
  iopte_top_ignored_val_def IOPTE_RESERVED_MASK_def BOTTOM_IGNORED_MASK_def BOTTOM_IGNORED_SHIFT_def
  BOTTOM_IGNORED_NUM_BITS_def TOP_IGNORED_MASK_def TOP_IGNORED_SHIFT_def

lemma mask10: "(0x3ff :: 'a::len word) = mask 10" by (simp add: mask_eq_exp_minus_1)
lemma mask7: "(0x7f :: 'a::len word) = mask 7" by (simp add: mask_eq_exp_minus_1)

lemma iopte_val_tblcnt_set: "iopte_val (iopte_tblcnt_set d v) = iopte_val d"
  unfolding codec_defs mask10 mask7
  apply (rule bit_word_eqI)
  subgoal for n
    apply (cases "n < 2"; cases "n < 12"; cases "n < 52"; cases "n < 59")
    apply (auto simp add: bit_simps)
    done
  done

lemma lt17: "(v :: 32 word) < 0x20000 \<Longrightarrow> n \<ge> 17 \<Longrightarrow> \<not> bit v n"
proof -
  assume "v < 0x20000" "n \<ge> 17"
  then have "v < 2 ^ 17" by simp
  then have "take_bit 17 v = v" by (simp add: less_mask_eq take_bit_eq_mask)
  then have "bit v n = bit (take_bit 17 v) n" by simp
  with \<open>n \<ge> 17\<close> show ?thesis by (simp add: bit_take_bit_iff)
qed

lemma iopte_tblcnt_set_get: "v < 0x20000 \<Longrightarrow> iopte_tblcnt (iopte_tblcnt_set d v) = v"
  unfolding codec_defs mask10 mask7
  apply (rule bit_word_eqI)
  subgoal for n
    apply (cases "n < 10"; cases "n < 17")
    apply (auto simp add: bit_simps dest: lt17)
    apply (auto dest: lt17 [where n = n])
    done
  done

lemma iopte_val_tblcnt_add: "iopte_val (iopte_tblcnt_add d c) = iopte_val d"
  by (simp add: iopte_tblcnt_add_def Let_def iopte_val_tblcnt_set)

lemma iopte_val_tblcnt_sub: "iopte_val (iopte_tblcnt_sub d c) = iopte_val d"
  by (simp add: iopte_tblcnt_sub_def Let_def iopte_val_tblcnt_set)

lemma iopte_deref_cong: "iopte_val a = iopte_val b \<Longrightarrow> iopte_deref a d = iopte_deref b d"
  by (simp add: iopte_deref_def)

lemma iopte_to_pfn_cong:
  assumes "iopte_val a = iopte_val b" "12 \<le> pg_shift d"
  shows "iopte_to_pfn a d = iopte_to_pfn b d"
proof (rule bit_word_eqI)
  fix n assume n: "n < LENGTH(64)"
  have *: "bit a m = bit b m" if "12 \<le> m" "m < 52" for m
  proof -
    have "bit (iopte_val a) m = bit (iopte_val b) m" using assms(1) by simp
    then show ?thesis using that
      unfolding codec_defs mask10 mask7 by (auto simp: bit_simps)
  qed
  show "bit (iopte_to_pfn a d) n = bit (iopte_to_pfn b d) n"
    unfolding iopte_to_pfn_def ARM_LPAE_MAX_ADDR_BITS_def mask_as
    using assms(2) n *[of "pg_shift d + n"]
    by (auto simp: bit_simps)
qed

lemma iopte_type_cong: "iopte_val a = iopte_val b \<Longrightarrow> iopte_type a = iopte_type b"
proof -
  assume h: "iopte_val a = iopte_val b"
  have *: "bit a m = bit b m" if "m < 2" for m
  proof -
    have "bit (iopte_val a) m = bit (iopte_val b) m" using h by simp
    then show ?thesis using that
      unfolding codec_defs mask10 mask7 by (auto simp: bit_simps)
  qed
  have m3: "(3 :: 64 word) = mask 2" by (simp add: mask_eq_exp_minus_1)
  show ?thesis
    by (rule bit_word_eqI) (auto simp: iopte_type_def ARM_LPAE_PTE_TYPE_SHIFT_def ARM_LPAE_PTE_TYPE_MASK_def m3 bit_simps *)
qed

lemma int_lt17:
  assumes "0 \<le> sint (v :: c_int)" "sint v < 2 ^ 17"
  shows "v < 0x20000"
proof -
  have "uint v = take_bit 32 (sint v)" using uint_sint [of v] by simp
  also have "\<dots> = sint v" using assms by (simp add: take_bit_int_eq_self)
  finally have "uint v < uint (0x20000 :: c_int)" using assms(2) by simp
  then show ?thesis by (simp only: word_less_alt)
qed

text \<open>
  C9. The counter codec round-trips, and it leaves the bits outside the ignored fields alone.
\<close>

theorem tblcnt_codec:
  assumes "0 \<le> sint v" and "sint v < 2 ^ 17" and "12 \<le> pg_shift data"
    and "iopte_val d1 = iopte_val d2"
  shows "iopte_tblcnt (iopte_tblcnt_set d v) = v
       \<and> iopte_val (iopte_tblcnt_set d v) = iopte_val d
       \<and> iopte_val (iopte_tblcnt_add d c) = iopte_val d
       \<and> iopte_val (iopte_tblcnt_sub d c) = iopte_val d
       \<and> iopte_type d1 = iopte_type d2
       \<and> iopte_deref d1 data = iopte_deref d2 data
       \<and> iopte_to_pfn d1 data = iopte_to_pfn d2 data"
proof -
  have "v < 0x20000" using assms(1,2) by (rule int_lt17)
  then have "iopte_tblcnt (iopte_tblcnt_set d v) = v" by (rule iopte_tblcnt_set_get)
  moreover have "iopte_type d1 = iopte_type d2" using assms(4) by (rule iopte_type_cong)
  moreover have "iopte_deref d1 data = iopte_deref d2 data" using assms(4) by (rule iopte_deref_cong)
  moreover have "iopte_to_pfn d1 data = iopte_to_pfn d2 data" using assms(4,3) by (rule iopte_to_pfn_cong)
  ultimately show ?thesis
    by (simp only: iopte_val_tblcnt_set iopte_val_tblcnt_add iopte_val_tblcnt_sub simp_thms)
qed

theorem tblcnt_codec_witness:
  "0 \<le> sint (5 :: c_int) \<and> sint (5 :: c_int) < 2 ^ 17 \<and> 12 \<le> pg_shift d0
   \<and> iopte_val 0x1003 = iopte_val 0x101F
   \<and> iopte_tblcnt (iopte_tblcnt_set 0x4003 5) = 5
   \<and> iopte_val (iopte_tblcnt_set 0x4003 5) = iopte_val 0x4003
   \<and> iopte_val (iopte_tblcnt_add 0x4003 1) = iopte_val 0x4003
   \<and> iopte_val (iopte_tblcnt_sub 0x4003 1) = iopte_val 0x4003
   \<and> iopte_type 0x1003 = iopte_type 0x101F
   \<and> iopte_deref 0x1003 d0 = iopte_deref 0x101F d0
   \<and> iopte_to_pfn 0x1003 d0 = iopte_to_pfn 0x101F d0"
proof -
  have h: "0 \<le> sint (5 :: c_int)" "sint (5 :: c_int) < 2 ^ 17" "12 \<le> pg_shift d0"
    "iopte_val 0x1003 = iopte_val 0x101F"
    by (simp_all add: d0_def codec_defs)
  from tblcnt_codec [OF h, of "0x4003" 1] h show ?thesis by simp
qed

lemma init_pte_mem:
  assumes "arm_lpae_init_pte data iova paddr prot lvl ptep prev_ptep flush s = Some (0, s')"
    and "prev_ptep \<noteq> ptep"
  shows "mem s' ptep = init_pte_value data paddr prot lvl"
  using assms
  by (auto simp: arm_lpae_init_pte_def Let_def flush_pgtable_def EEXIST_def split: if_splits)

text \<open>
  C8 fails as stated: \<open>ARM_LPAE_PTE_XN\<close> is the two-bit field \<open>3 << 53\<close>, so that a
  Stage-1 leaf for a protection with \<open>IOMMU_NOEXEC\<close> has bit 53 set as well as bit 54.
\<close>

theorem xn_bit53_counterexample:
  "iop_fmt d0 = ARM_64_LPAE_S1
   \<and> bit (init_pte_value d0 0 (arm_lpae_prot_to_pte d0 {IOMMU_READ, IOMMU_NOEXEC}) 3) 53"
proof -
  have f: "iop_fmt d0 = ARM_64_LPAE_S1" by (simp add: d0_def)
  then have "bit (arm_lpae_prot_to_pte d0 {IOMMU_READ, IOMMU_NOEXEC}) 53"
    by (simp add: bit_prot_to_pte_s1_hi)
  with f show ?thesis by (simp add: bit_init_pte_value)
qed

text \<open>
  C8, amended: the descriptor that \<open>arm_lpae_init_pte\<close> stores always has bit 10 (AF)
  set; for a Stage-1 format and a protection with \<open>IOMMU_NOEXEC\<close> its bits from 48 up are
  exactly the bits 53 and 54.
\<close>

theorem leaf_af_and_xn:
  assumes "arm_lpae_init_pte data iova paddr prot lvl ptep prev_ptep flush s = Some (0, s')"
    and "prev_ptep \<noteq> ptep"
  shows "bit (mem s' ptep) 10
       \<and> (prot = arm_lpae_prot_to_pte data iommu_prot
            \<and> (iop_fmt data = ARM_64_LPAE_S1 \<or> iop_fmt data = ARM_32_LPAE_S1)
            \<and> IOMMU_NOEXEC \<in> iommu_prot
          \<longrightarrow> (\<forall>n\<ge>48. bit (mem s' ptep) n \<longleftrightarrow> n = 53 \<or> n = 54))"
proof -
  have m: "mem s' ptep = init_pte_value data paddr prot lvl"
    using assms by (rule init_pte_mem)
  have "bit (mem s' ptep) 10" by (simp add: m bit_init_pte_value)
  moreover have "bit (mem s' ptep) n \<longleftrightarrow> n = 53 \<or> n = 54"
    if "prot = arm_lpae_prot_to_pte data iommu_prot"
      "iop_fmt data = ARM_64_LPAE_S1 \<or> iop_fmt data = ARM_32_LPAE_S1"
      "IOMMU_NOEXEC \<in> iommu_prot" "48 \<le> n" for n
    using that by (auto simp: m bit_init_pte_value bit_prot_to_pte_s1_hi)
  ultimately show ?thesis by blast
qed

theorem leaf_af_and_xn_witness:
  "arm_lpae_init_pte d0 0 0 (arm_lpae_prot_to_pte d0 {IOMMU_READ, IOMMU_NOEXEC}) 3 0x40000 0x30000 True s0
     = Some (0, snd (the (arm_lpae_init_pte d0 0 0 (arm_lpae_prot_to_pte d0 {IOMMU_READ, IOMMU_NOEXEC}) 3
        0x40000 0x30000 True s0)))
   \<and> (0x30000 :: 64 word) \<noteq> 0x40000
   \<and> iop_fmt d0 = ARM_64_LPAE_S1
   \<and> bit (mem (snd (the (arm_lpae_init_pte d0 0 0 (arm_lpae_prot_to_pte d0 {IOMMU_READ, IOMMU_NOEXEC}) 3
        0x40000 0x30000 True s0))) 0x40000) 10
   \<and> bit (mem (snd (the (arm_lpae_init_pte d0 0 0 (arm_lpae_prot_to_pte d0 {IOMMU_READ, IOMMU_NOEXEC}) 3
        0x40000 0x30000 True s0))) 0x40000) 53
   \<and> bit (mem (snd (the (arm_lpae_init_pte d0 0 0 (arm_lpae_prot_to_pte d0 {IOMMU_READ, IOMMU_NOEXEC}) 3
        0x40000 0x30000 True s0))) 0x40000) 54
   \<and> \<not> bit (mem (snd (the (arm_lpae_init_pte d0 0 0 (arm_lpae_prot_to_pte d0 {IOMMU_READ, IOMMU_NOEXEC}) 3
        0x40000 0x30000 True s0))) 0x40000) 52
   \<and> \<not> bit (mem (snd (the (arm_lpae_init_pte d0 0 0 (arm_lpae_prot_to_pte d0 {IOMMU_READ, IOMMU_NOEXEC}) 3
        0x40000 0x30000 True s0))) 0x40000) 55
   \<and> \<not> bit (mem (snd (the (arm_lpae_init_pte d0 0 0 (arm_lpae_prot_to_pte d0 {IOMMU_READ, IOMMU_NOEXEC}) 3
        0x40000 0x30000 True s0))) 0x40000) 63"
proof -
  have h1: "arm_lpae_init_pte d0 0 0 (arm_lpae_prot_to_pte d0 {IOMMU_READ, IOMMU_NOEXEC}) 3 0x40000 0x30000 True s0
     = Some (0, snd (the (arm_lpae_init_pte d0 0 0 (arm_lpae_prot_to_pte d0 {IOMMU_READ, IOMMU_NOEXEC}) 3
        0x40000 0x30000 True s0)))"
    by (simp add: arm_lpae_init_pte_def s0_def ARM_LPAE_PTE_VALID_def Let_def)
  have h2: "(0x30000 :: 64 word) \<noteq> 0x40000" by simp
  have f: "iop_fmt d0 = ARM_64_LPAE_S1" by (simp add: d0_def)
  from leaf_af_and_xn [OF h1 h2, of "{IOMMU_READ, IOMMU_NOEXEC}"] f
  have "bit (mem (snd (the (arm_lpae_init_pte d0 0 0 (arm_lpae_prot_to_pte d0 {IOMMU_READ, IOMMU_NOEXEC}) 3
        0x40000 0x30000 True s0))) 0x40000) 10"
    and "\<And>n. 48 \<le> n \<Longrightarrow> bit (mem (snd (the (arm_lpae_init_pte d0 0 0 (arm_lpae_prot_to_pte d0 {IOMMU_READ, IOMMU_NOEXEC}) 3
        0x40000 0x30000 True s0))) 0x40000) n \<longleftrightarrow> n = 53 \<or> n = 54"
    by simp_all
  from this(1) this(2) [of 53] this(2) [of 54] this(2) [of 52] this(2) [of 55] this(2) [of 63]
  show ?thesis using h1 h2 f by simp
qed

section \<open>Construction\<close>

lemma ffs_eq:
  assumes "bit x k" "take_bit k x = 0" "k < 64"
  shows "ffs x = k"
proof -
  have nb: "\<not> bit x i" if "i < k" for i
  proof -
    have "bit (take_bit k x) i = bit x i" using that by (simp add: bit_take_bit_iff)
    then show ?thesis using assms(2) by simp
  qed
  have "ffs_from x i n = k" if "i \<le> k" "k < i + n" for i n
    using that
  proof (induction n arbitrary: i)
    case 0
    then show ?case by simp
  next
    case (Suc n)
    show ?case
    proof (cases "i = k")
      case True
      then show ?thesis using assms(1) by simp
    next
      case False
      then have "i < k" using Suc.prems by simp
      then show ?thesis using Suc nb [of i] by simp
    qed
  qed
  from this [of 0 64] assms(3) show ?thesis by (simp add: ffs_def)
qed

lemma and_bit_ne0: "(x :: 64 word) AND push_bit k 1 \<noteq> 0 \<longleftrightarrow> bit x k"
  by (simp only: bit_iff_and_push_bit_not_eq_0)

lemma restrict_cases:
  "pgsize_bitmap (arm_lpae_restrict_pgsizes cfg) = pgsize_bitmap cfg AND 0x40201000
   \<or> pgsize_bitmap (arm_lpae_restrict_pgsizes cfg) = pgsize_bitmap cfg AND 0x2004000
   \<or> pgsize_bitmap (arm_lpae_restrict_pgsizes cfg) = pgsize_bitmap cfg AND 0x20010000
   \<or> pgsize_bitmap (arm_lpae_restrict_pgsizes cfg) = 0"
proof -
  define g where "g =
        (if pgsize_bitmap cfg AND PAGE_SIZE \<noteq> 0 then PAGE_SIZE
         else if pgsize_bitmap cfg AND NOT PAGE_MASK \<noteq> 0
         then push_bit (fls (pgsize_bitmap cfg AND NOT PAGE_MASK)) 1
         else if pgsize_bitmap cfg AND PAGE_MASK \<noteq> 0
         then push_bit (ffs (pgsize_bitmap cfg AND PAGE_MASK)) 1
         else 0)"
  have "arm_lpae_restrict_pgsizes cfg =
      (if g = SZ_4K
         then cfg\<lparr>pgsize_bitmap := pgsize_bitmap cfg AND (SZ_4K OR SZ_2M OR SZ_1G)\<rparr>
         else if g = SZ_16K
         then cfg\<lparr>pgsize_bitmap := pgsize_bitmap cfg AND (SZ_16K OR SZ_32M)\<rparr>
         else if g = SZ_64K
         then cfg\<lparr>pgsize_bitmap := pgsize_bitmap cfg AND (SZ_64K OR SZ_512M)\<rparr>
         else cfg\<lparr>pgsize_bitmap := 0\<rparr>)"
    unfolding arm_lpae_restrict_pgsizes_def Let_def g_def ..
  then show ?thesis
    by (simp add: SZ_4K_def SZ_16K_def SZ_64K_def SZ_2M_def SZ_32M_def SZ_512M_def SZ_1G_def)
qed

lemma restrict_other:
  "ias (arm_lpae_restrict_pgsizes cfg) = ias cfg" "oas (arm_lpae_restrict_pgsizes cfg) = oas cfg"
  "s1_tcr (arm_lpae_restrict_pgsizes cfg) = s1_tcr cfg"
  by (simp_all add: arm_lpae_restrict_pgsizes_def Let_def)

lemma ffs_granule:
  fixes b :: "64 word"
  shows "(b AND 0x40201000) AND 0x15000 \<noteq> 0 \<Longrightarrow> ffs (b AND 0x40201000) = 12"
    and "(b AND 0x2004000) AND 0x15000 \<noteq> 0 \<Longrightarrow> ffs (b AND 0x2004000) = 14"
    and "(b AND 0x20010000) AND 0x15000 \<noteq> 0 \<Longrightarrow> ffs (b AND 0x20010000) = 16"
proof -
  show "ffs (b AND 0x40201000) = 12" if "(b AND 0x40201000) AND 0x15000 \<noteq> 0"
  proof (rule ffs_eq)
    have "b AND push_bit 12 1 \<noteq> 0" using that by (simp add: and.assoc)
    then have "bit b 12" by (simp only: and_bit_ne0)
    then show "bit (b AND 0x40201000) 12" by (simp add: bit_and_iff)
    show "take_bit 12 (b AND 0x40201000) = 0" by (simp add: take_bit_and)
  qed simp
  show "ffs (b AND 0x2004000) = 14" if "(b AND 0x2004000) AND 0x15000 \<noteq> 0"
  proof (rule ffs_eq)
    have "b AND push_bit 14 1 \<noteq> 0" using that by (simp add: and.assoc)
    then have "bit b 14" by (simp only: and_bit_ne0)
    then show "bit (b AND 0x2004000) 14" by (simp add: bit_and_iff)
    show "take_bit 14 (b AND 0x2004000) = 0" by (simp add: take_bit_and)
  qed simp
  show "ffs (b AND 0x20010000) = 16" if "(b AND 0x20010000) AND 0x15000 \<noteq> 0"
  proof (rule ffs_eq)
    have "b AND push_bit 16 1 \<noteq> 0" using that by (simp add: and.assoc)
    then have "bit b 16" by (simp only: and_bit_ne0)
    then show "bit (b AND 0x20010000) 16" by (simp add: bit_and_iff)
    show "take_bit 16 (b AND 0x20010000) = 0" by (simp add: take_bit_and)
  qed simp
qed

lemma alloc_pgtable_Some:
  assumes "arm_lpae_alloc_pgtable cfg kmalloc = (Some data, cfg')"
  shows "pg_shift data = 12 \<or> pg_shift data = 14 \<or> pg_shift data = 16"
    and "pg_shift data = ffs (pgsize_bitmap cfg')"
    and "bits_per_level data = pg_shift data - 3"
    and "ias cfg' = ias cfg" and "oas cfg' = oas cfg" and "ias cfg \<le> 48" and "oas cfg \<le> 48"
    and "cfg' = arm_lpae_restrict_pgsizes cfg"
proof -
  let ?c = "arm_lpae_restrict_pgsizes cfg"
  from assms have ne: "pgsize_bitmap ?c AND 0x15000 \<noteq> 0"
    and c: "cfg' = ?c" and i: "ias ?c \<le> 48" and oo: "oas ?c \<le> 48"
    and p: "pg_shift data = ffs (pgsize_bitmap ?c)" and b: "bits_per_level data = ffs (pgsize_bitmap ?c) - 3"
    by (auto simp: arm_lpae_alloc_pgtable_def Let_def SZ_4K_def SZ_16K_def SZ_64K_def
        ARM_LPAE_MAX_ADDR_BITS_def not_less split: if_splits option.splits)
  from restrict_cases [of cfg] ne
  have "ffs (pgsize_bitmap ?c) = 12 \<or> ffs (pgsize_bitmap ?c) = 14 \<or> ffs (pgsize_bitmap ?c) = 16"
    by (auto simp: ffs_granule)
  then show "pg_shift data = 12 \<or> pg_shift data = 14 \<or> pg_shift data = 16" using p by simp
  show "pg_shift data = ffs (pgsize_bitmap cfg')" using p c by simp
  show "bits_per_level data = pg_shift data - 3" using p b by simp
  show "ias cfg' = ias cfg" "oas cfg' = oas cfg" using c by (simp_all add: restrict_other)
  show "ias cfg \<le> 48" "oas cfg \<le> 48" using i oo by (simp_all add: restrict_other)
  show "cfg' = arm_lpae_restrict_pgsizes cfg" by (rule c)
qed

lemma t0sz_bound:
  fixes i :: "32 word"
  assumes "i \<le> 48"
  shows "(64 - ucast i :: 64 word) \<le> 64" and "i \<noteq> 0 \<Longrightarrow> (64 - ucast i :: 64 word) < 64"
proof -
  have u: "unat (ucast i :: 64 word) = unat i" proof -
    have "unat i < 2 ^ 32" using unsigned_less [of i, where ?'a = nat] by simp
    then have "unat i < 2 ^ 64" by simp
    then show ?thesis by (simp add: unsigned_ucast_eq take_bit_nat_eq_self)
  qed
  have "unat i \<le> 48" using assms by (simp add: word_le_nat_alt)
  then have le: "(ucast i :: 64 word) \<le> 64" using u by (simp add: word_le_nat_alt)
  have s: "unat (64 - ucast i :: 64 word) = 64 - unat i" using unat_sub [OF le] u by simp
  show "(64 - ucast i :: 64 word) \<le> 64" using s by (simp add: word_le_nat_alt)
  show "(64 - ucast i :: 64 word) < 64" if "i \<noteq> 0"
  proof -
    have "unat i \<noteq> 0" using that by (simp add: unat_eq_0)
    then show ?thesis using s \<open>unat i \<le> 48\<close> by (simp add: word_less_nat_alt)
  qed
qed

lemma take_bit_le:
  fixes w :: "64 word"
  assumes "w < 2 ^ k"
  shows "take_bit k w = w"
  using assms by (simp add: take_bit_eq_mask less_mask_eq)

lemma bit_small:
  fixes w :: "64 word"
  assumes "w < 2 ^ k" "bit w n"
  shows "n < k"
proof -
  have "bit (take_bit k w) n" using assms by (simp add: take_bit_le)
  then show ?thesis by (simp add: bit_take_bit_iff)
qed

lemma tcr_bits:
  fixes w ps tg :: "64 word"
  shows "bit (push_bit 12 3 OR push_bit 14 tg OR push_bit 32 ps OR w OR push_bit 23 1) n \<longleftrightarrow>
     n < 64 \<and> (n = 12 \<or> n = 13 \<or> (14 \<le> n \<and> bit tg (n - 14)) \<or> (32 \<le> n \<and> bit ps (n - 32))
              \<or> bit w n \<or> n = 23)"
proof (cases "n < 64")
  case True
  then show ?thesis
    apply (simp only: bit_or_iff bit_pb3 bit_pb1)
    apply (simp only: bit_push_bit_iff possible_bit_word)
    apply auto
    done
next
  case False
  then show ?thesis using bit_imp_le_length [of _ n, where ?'a = 64] by (auto simp: not_less)
qed

lemma tcr_fields:
  fixes w ps tg :: "64 word"
  assumes w: "w < 2 ^ 7" and ps: "ps < 2 ^ 3" and tg: "tg < 2 ^ 2"
  defines "tcr \<equiv> push_bit 12 3 OR push_bit 14 tg OR push_bit 32 ps OR w OR push_bit 23 1"
  shows "take_bit 8 tcr = w" and "bit tcr 23" and "take_bit 2 (drop_bit 14 tcr) = tg"
    and "take_bit 3 (drop_bit 32 tcr) = ps" and "take_bit 2 (drop_bit 12 tcr) = 3"
proof -
  note bw = bit_small [OF w] and bp = bit_small [OF ps] and bt = bit_small [OF tg]
  note b = tcr_bits [of tg ps w, folded tcr_def]
  show "bit tcr 23" by (simp add: b)
  show "take_bit 8 tcr = w"
  proof (rule bit_word_eqI)
    fix n assume n: "n < LENGTH(64)"
    show "bit (take_bit 8 tcr) n = bit w n"
    proof (cases "n < 8")
      case True
      then show ?thesis using n by (simp add: bit_take_bit_iff b)
    next
      case False
      then show ?thesis using bw [of n] by (auto simp: bit_take_bit_iff)
    qed
  qed
  show "take_bit 2 (drop_bit 14 tcr) = tg"
  proof (rule bit_word_eqI)
    fix n assume n: "n < LENGTH(64)"
    consider "n = 0" | "n = 1" | "2 \<le> n" by linarith
    then show "bit (take_bit 2 (drop_bit 14 tcr)) n = bit tg n"
    proof cases
      case 1
      then show ?thesis using bw [of 14] by (auto simp: bit_take_bit_iff bit_drop_bit_eq b)
    next
      case 2
      then show ?thesis using bw [of 15] by (auto simp: bit_take_bit_iff bit_drop_bit_eq b)
    next
      case 3
      then show ?thesis using bt [of n] by (auto simp: bit_take_bit_iff)
    qed
  qed
  show "take_bit 3 (drop_bit 32 tcr) = ps"
  proof (rule bit_word_eqI)
    fix n assume n: "n < LENGTH(64)"
    consider "n = 0" | "n = 1" | "n = 2" | "3 \<le> n" by linarith
    then show "bit (take_bit 3 (drop_bit 32 tcr)) n = bit ps n"
    proof cases
      case 1
      then show ?thesis using bw [of 32] bt [of 18] by (auto simp: bit_take_bit_iff bit_drop_bit_eq b)
    next
      case 2
      then show ?thesis using bw [of 33] bt [of 19] by (auto simp: bit_take_bit_iff bit_drop_bit_eq b)
    next
      case 3
      then show ?thesis using bw [of 34] bt [of 20] by (auto simp: bit_take_bit_iff bit_drop_bit_eq b)
    next
      case 4
      then show ?thesis using bp [of n] by (auto simp: bit_take_bit_iff)
    qed
  qed
  show "take_bit 2 (drop_bit 12 tcr) = 3"
  proof (rule bit_word_eqI)
    fix n assume n: "n < LENGTH(64)"
    consider "n = 0" | "n = 1" | "2 \<le> n" by linarith
    then show "bit (take_bit 2 (drop_bit 12 tcr)) n = bit (3 :: 64 word) n"
    proof cases
      case 1
      then show ?thesis by (simp add: bit_take_bit_iff bit_drop_bit_eq b bit_w3)
    next
      case 2
      then show ?thesis by (simp add: bit_take_bit_iff bit_drop_bit_eq b bit_w3)
    next
      case 3
      then show ?thesis using bit_w3 [of n] by (auto simp: bit_take_bit_iff)
    qed
  qed
qed

lemmas tcr_consts = ARM_LPAE_TCR_TG0_4K_def ARM_LPAE_TCR_TG0_64K_def ARM_LPAE_TCR_TG0_16K_def
  ARM_LPAE_TCR_SH0_SHIFT_def ARM_LPAE_TCR_SH_IS_def ARM_LPAE_TCR_ORGN0_SHIFT_def
  ARM_LPAE_TCR_IRGN0_SHIFT_def ARM_LPAE_TCR_RGN_NC_def ARM_LPAE_TCR_RGN_WBWA_def
  ARM_LPAE_TCR_SL0_SHIFT_def ARM_LPAE_TCR_SL0_MASK_def ARM_LPAE_TCR_T0SZ_SHIFT_def
  ARM_LPAE_TCR_PS_SHIFT_def ARM_LPAE_TCR_IPS_SHIFT_def ARM_LPAE_TCR_PS_32_BIT_def
  ARM_LPAE_TCR_PS_36_BIT_def ARM_LPAE_TCR_PS_40_BIT_def ARM_LPAE_TCR_PS_42_BIT_def
  ARM_LPAE_TCR_PS_44_BIT_def ARM_LPAE_TCR_PS_48_BIT_def ARM_LPAE_TCR_EPD1_SHIFT_def
  ARM_LPAE_TCR_EPD1_FAULT_def ARM_64_LPAE_S2_TCR_RES1_def

lemma tcr_ps_Some:
  assumes "tcr_ps x = Some ps"
  shows "x = 32 \<or> x = 36 \<or> x = 40 \<or> x = 42 \<or> x = 44 \<or> x = 48" and "ps = ips_code x" and "ps < 2 ^ 3"
  using assms by (auto simp: tcr_ps_def ips_code_def tcr_consts split: if_splits)

lemma tcr_tg0_eq:
  assumes "sh = 12 \<or> sh = 14 \<or> sh = 16"
  shows "tcr_tg0 (int_shl1 sh) reg = reg OR push_bit 14 (tg0_code sh)" and "tg0_code sh < 2 ^ 2"
  using assms by (auto simp: tcr_tg0_def tg0_code_def int_shl1_def tcr_consts)

lemma s1_Some:
  assumes "arm_64_lpae_alloc_pgtable_s1 cfg kmalloc s = (Some data, cfg', s')"
  obtains d1 c1 ps where "arm_lpae_alloc_pgtable cfg kmalloc = (Some d1, c1)"
    and "tcr_ps (oas c1) = Some ps" and "pg_shift data = pg_shift d1"
    and "pgsize_bitmap cfg' = pgsize_bitmap c1"
    and "s1_tcr cfg' =
           tcr_tg0 (int_shl1 (pg_shift d1)) (push_bit 12 3)
           OR push_bit 32 ps OR (64 - ucast (ias c1)) OR push_bit 23 1"
  using assms
  by (auto simp: arm_64_lpae_alloc_pgtable_s1_def Let_def tcr_consts or.assoc
      split: prod.splits option.splits if_splits)

text \<open>
  C7. The TCR word of a Stage-1 64-bit allocator. \<open>T0SZ\<close> is written at bit 0 and the
  next field of the word starts at bit 8; the architectural field has 6 bits, which hold
  \<open>64 - ias\<close> unless \<open>ias\<close> is 0.
\<close>

theorem s1_tcr_fields:
  "(oas cfg \<notin> {32, 36, 40, 42, 44, 48} \<longrightarrow> fst (arm_64_lpae_alloc_pgtable_s1 cfg kmalloc s) = None)
   \<and> (arm_64_lpae_alloc_pgtable_s1 cfg kmalloc s = (Some data, cfg', s') \<longrightarrow>
        take_bit 8 (drop_bit ARM_LPAE_TCR_T0SZ_SHIFT (s1_tcr cfg')) = 64 - ucast (ias cfg)
      \<and> (ias cfg \<noteq> 0 \<longrightarrow> take_bit 6 (drop_bit ARM_LPAE_TCR_T0SZ_SHIFT (s1_tcr cfg')) = 64 - ucast (ias cfg))
      \<and> bit (s1_tcr cfg') ARM_LPAE_TCR_EPD1_SHIFT
      \<and> pg_shift data = ffs (pgsize_bitmap cfg')
      \<and> (pg_shift data = 12 \<or> pg_shift data = 14 \<or> pg_shift data = 16)
      \<and> take_bit 2 (drop_bit 14 (s1_tcr cfg')) = tg0_code (pg_shift data)
      \<and> take_bit 3 (drop_bit ARM_LPAE_TCR_IPS_SHIFT (s1_tcr cfg')) = ips_code (oas cfg)
      \<and> take_bit 2 (drop_bit ARM_LPAE_TCR_SH0_SHIFT (s1_tcr cfg')) = ARM_LPAE_TCR_SH_IS)"
proof (intro conjI impI)
  assume "oas cfg \<notin> {32, 36, 40, 42, 44, 48}"
  then have "tcr_ps (oas cfg) = None" by (simp add: tcr_ps_def)
  moreover have "oas c1 = oas cfg" if "arm_lpae_alloc_pgtable cfg kmalloc = (Some d1, c1)" for d1 c1
    using alloc_pgtable_Some(5) [OF that] .
  ultimately show "fst (arm_64_lpae_alloc_pgtable_s1 cfg kmalloc s) = None"
    by (auto simp: arm_64_lpae_alloc_pgtable_s1_def Let_def split: prod.splits option.splits)
next
  assume ok: "arm_64_lpae_alloc_pgtable_s1 cfg kmalloc s = (Some data, cfg', s')"
  from s1_Some [OF ok] obtain d1 c1 ps where
    a: "arm_lpae_alloc_pgtable cfg kmalloc = (Some d1, c1)" and p: "tcr_ps (oas c1) = Some ps"
    and sh: "pg_shift data = pg_shift d1" and bm: "pgsize_bitmap cfg' = pgsize_bitmap c1"
    and t: "s1_tcr cfg' = tcr_tg0 (int_shl1 (pg_shift d1)) (push_bit 12 3)
           OR push_bit 32 ps OR (64 - ucast (ias c1)) OR push_bit 23 1"
    by blast
  note g = alloc_pgtable_Some [OF a]
  have shc: "pg_shift data = 12 \<or> pg_shift data = 14 \<or> pg_shift data = 16" using g(1) sh by simp
  have w: "(64 - ucast (ias cfg) :: 64 word) < 2 ^ 7"
    using t0sz_bound(1) [OF g(6)] by (simp add: word_less_nat_alt word_le_nat_alt)
  have t': "s1_tcr cfg' = push_bit 12 3 OR push_bit 14 (tg0_code (pg_shift data))
      OR push_bit 32 (ips_code (oas cfg)) OR (64 - ucast (ias cfg)) OR push_bit 23 1"
    using t tcr_tg0_eq(1) [OF shc] tcr_ps_Some(2) [OF p] g(4,5) sh by (simp add: or.assoc)
  have psb: "ips_code (oas cfg) < 2 ^ 3" using tcr_ps_Some(2,3) [OF p] g(5) by simp
  note f = tcr_fields [OF w psb tcr_tg0_eq(2) [OF shc], folded t']
  show "take_bit 8 (drop_bit ARM_LPAE_TCR_T0SZ_SHIFT (s1_tcr cfg')) = 64 - ucast (ias cfg)"
    using f(1) by (simp add: tcr_consts)
  show "take_bit 6 (drop_bit ARM_LPAE_TCR_T0SZ_SHIFT (s1_tcr cfg')) = 64 - ucast (ias cfg)"
    if "ias cfg \<noteq> 0"
  proof -
    have "(64 - ucast (ias cfg) :: 64 word) < 2 ^ 6" using t0sz_bound(2) [OF g(6) that] by simp
    then have "take_bit 6 (64 - ucast (ias cfg) :: 64 word) = 64 - ucast (ias cfg)"
      by (rule take_bit_le)
    moreover have "take_bit 6 (take_bit 8 (s1_tcr cfg')) = take_bit 6 (s1_tcr cfg')" by simp
    ultimately show ?thesis using f(1) by (simp add: tcr_consts)
  qed
  show "bit (s1_tcr cfg') ARM_LPAE_TCR_EPD1_SHIFT" using f(2) by (simp add: tcr_consts)
  show "pg_shift data = ffs (pgsize_bitmap cfg')" using g(2) sh bm by simp
  show "pg_shift data = 12 \<or> pg_shift data = 14 \<or> pg_shift data = 16" by (rule shc)
  show "take_bit 2 (drop_bit 14 (s1_tcr cfg')) = tg0_code (pg_shift data)" by (rule f(3))
  show "take_bit 3 (drop_bit ARM_LPAE_TCR_IPS_SHIFT (s1_tcr cfg')) = ips_code (oas cfg)"
    using f(4) by (simp add: tcr_consts)
  show "take_bit 2 (drop_bit ARM_LPAE_TCR_SH0_SHIFT (s1_tcr cfg')) = ARM_LPAE_TCR_SH_IS"
    using f(5) by (simp add: tcr_consts)
qed

lemma ffs_4k: "ffs 0x40201000 = 12"
  by (rule ffs_eq) simp_all

lemma restrict_4k: "arm_lpae_restrict_pgsizes (cfg_4k i oo) = cfg_4k i oo"
  by (simp add: arm_lpae_restrict_pgsizes_def cfg_4k_def PAGE_SIZE_def SZ_4K_def SZ_2M_def SZ_1G_def)

lemma alloc_4k_48: "arm_lpae_alloc_pgtable (cfg_4k 48 48) (Some d0) = (Some (d0\<lparr>levels := 4, pgd_size := 0x1000, pg_shift := 12, bits_per_level := 9\<rparr>), cfg_4k 48 48)"
  unfolding arm_lpae_alloc_pgtable_def restrict_4k
  by (simp add: cfg_4k_def ffs_4k SZ_4K_def SZ_16K_def SZ_64K_def ARM_LPAE_MAX_ADDR_BITS_def DIV_ROUND_UP_def Let_def)

lemma alloc_4k_43: "arm_lpae_alloc_pgtable (cfg_4k 43 48) (Some d0) = (Some (d0\<lparr>levels := 4, pgd_size := 0x80, pg_shift := 12, bits_per_level := 9\<rparr>), cfg_4k 43 48)"
  unfolding arm_lpae_alloc_pgtable_def restrict_4k
  by (simp add: cfg_4k_def ffs_4k SZ_4K_def SZ_16K_def SZ_64K_def ARM_LPAE_MAX_ADDR_BITS_def DIV_ROUND_UP_def Let_def)

lemma restrict_has_4k:
  assumes "pgsize_bitmap cfg AND SZ_4K \<noteq> 0"
  shows "pgsize_bitmap (arm_lpae_restrict_pgsizes cfg) = pgsize_bitmap cfg AND 0x40201000"
  using assms
  by (simp add: arm_lpae_restrict_pgsizes_def PAGE_SIZE_def SZ_4K_def SZ_2M_def SZ_1G_def)

lemma alloc_pgtable_4k:
  assumes "arm_lpae_alloc_pgtable cfg kmalloc = (Some d, c)" and "pgsize_bitmap cfg AND SZ_4K \<noteq> 0"
  shows "pg_shift d = 12"
    and "levels d = sint (ucast (DIV_ROUND_UP (ucast (ias cfg) - 12) 9) :: c_int)"
    and "pgd_size d = push_bit (unat ((ucast (ias cfg) - 12)
           - 9 * scast ((ucast (DIV_ROUND_UP (ucast (ias cfg) - 12) 9) :: c_int) - 1) + 3 :: 64 word)) 1"
proof -
  let ?c = "arm_lpae_restrict_pgsizes cfg"
  have b: "pgsize_bitmap ?c = pgsize_bitmap cfg AND 0x40201000" using assms(2) by (rule restrict_has_4k)
  have "(pgsize_bitmap cfg AND 0x40201000) AND 0x15000 \<noteq> 0"
    using assms(2) by (simp add: and.assoc SZ_4K_def)
  then have f: "ffs (pgsize_bitmap ?c) = 12" unfolding b by (rule ffs_granule(1))
  from assms(1) obtain k where k: "kmalloc = Some k"
    and d: "d = k\<lparr>levels := sint (ucast (DIV_ROUND_UP (ucast (ias ?c) - 12) 9) :: c_int),
        pgd_size := push_bit (unat ((ucast (ias ?c) - 12)
           - 9 * scast ((ucast (DIV_ROUND_UP (ucast (ias ?c) - 12) 9) :: c_int) - 1) + 3 :: 64 word)) 1,
        pg_shift := 12, bits_per_level := 9\<rparr>"
    by (auto simp: arm_lpae_alloc_pgtable_def Let_def f split: if_splits option.splits)
  show "pg_shift d = 12" by (simp add: d)
  show "levels d = sint (ucast (DIV_ROUND_UP (ucast (ias cfg) - 12) 9) :: c_int)"
    by (simp add: d restrict_other)
  show "pgd_size d = push_bit (unat ((ucast (ias cfg) - 12)
           - 9 * scast ((ucast (DIV_ROUND_UP (ucast (ias cfg) - 12) 9) :: c_int) - 1) + 3 :: 64 word)) 1"
    by (simp add: d restrict_other)
qed

lemma s2_Some:
  assumes "arm_64_lpae_alloc_pgtable_s2 cfg kmalloc s = (Some data, cfg', s')"
  obtains d1 c1 where "arm_lpae_alloc_pgtable cfg kmalloc = (Some d1, c1)"
    and "levels data = levels (s2_concat d1)" and "pgd_size data = pgd_size (s2_concat d1)"
  using assms
  by (auto simp: arm_64_lpae_alloc_pgtable_s2_def Let_def
      split: prod.splits option.splits if_splits)

text \<open>
  C5 fails as stated: with \<open>ias = 48\<close> and the 4 KiB granule the unconcatenated root has
  512 entries, more than \<open>ARM_LPAE_S2_MAX_CONCAT_PAGES\<close>, so that the root stays one page
  and the walk keeps 4 levels.
\<close>

theorem s2_ias48_counterexample:
  "fst (arm_64_lpae_alloc_pgtable_s2 (cfg_4k 48 48) (Some d0) s0) \<noteq> None
   \<and> levels (the (fst (arm_64_lpae_alloc_pgtable_s2 (cfg_4k 48 48) (Some d0) s0))) = 4
   \<and> pgd_size (the (fst (arm_64_lpae_alloc_pgtable_s2 (cfg_4k 48 48) (Some d0) s0))) = 0x1000"
  unfolding arm_64_lpae_alloc_pgtable_s2_def alloc_4k_48
  by (simp add: s2_concat_def Let_def tcr_ps_def io_pgtable_alloc_pages_exact_def s0_def cfg_4k_def
      ARM_LPAE_MAX_LEVELS_def ARM_LPAE_S2_MAX_CONCAT_PAGES_def)

text \<open>
  C5, amended: for a Stage-2 64-bit allocator with the 4 KiB granule, \<open>ias = 43\<close> gives a
  concatenated root of 16 pages (64 KiB) and 3 levels, and \<open>ias = 48\<close> gives a root of one
  page and 4 levels.
\<close>

theorem s2_concat_geometry:
  assumes "arm_64_lpae_alloc_pgtable_s2 cfg kmalloc s = (Some data, cfg', s')"
    and "pgsize_bitmap cfg AND SZ_4K \<noteq> 0"
  shows "(ias cfg = 43 \<longrightarrow> levels data = 3 \<and> pgd_size data = 16 * 0x1000)
       \<and> (ias cfg = 48 \<longrightarrow> levels data = 4 \<and> pgd_size data = 0x1000)"
proof -
  from s2_Some [OF assms(1)] obtain d1 c1 where
    a: "arm_lpae_alloc_pgtable cfg kmalloc = (Some d1, c1)"
    and l: "levels data = levels (s2_concat d1)" and p: "pgd_size data = pgd_size (s2_concat d1)"
    by blast
  note g = alloc_pgtable_4k [OF a assms(2)]
  have "levels (s2_concat d1) = 3 \<and> pgd_size (s2_concat d1) = 16 * 0x1000" if "ias cfg = 43"
    using g that
    by (simp add: s2_concat_def Let_def DIV_ROUND_UP_def ARM_LPAE_MAX_LEVELS_def
        ARM_LPAE_S2_MAX_CONCAT_PAGES_def)
  moreover have "levels (s2_concat d1) = 4 \<and> pgd_size (s2_concat d1) = 0x1000" if "ias cfg = 48"
    using g that
    by (simp add: s2_concat_def Let_def DIV_ROUND_UP_def ARM_LPAE_MAX_LEVELS_def
        ARM_LPAE_S2_MAX_CONCAT_PAGES_def)
  ultimately show ?thesis using l p by simp
qed

theorem s2_concat_geometry_witness:
  "arm_64_lpae_alloc_pgtable_s2 (cfg_4k 43 48) (Some d0) s0
     = (Some (the (fst (arm_64_lpae_alloc_pgtable_s2 (cfg_4k 43 48) (Some d0) s0))),
        fst (snd (arm_64_lpae_alloc_pgtable_s2 (cfg_4k 43 48) (Some d0) s0)),
        snd (snd (arm_64_lpae_alloc_pgtable_s2 (cfg_4k 43 48) (Some d0) s0)))
   \<and> pgsize_bitmap (cfg_4k 43 48) AND SZ_4K \<noteq> 0
   \<and> ias (cfg_4k 43 48) = 43
   \<and> levels (the (fst (arm_64_lpae_alloc_pgtable_s2 (cfg_4k 43 48) (Some d0) s0))) = 3
   \<and> pgd_size (the (fst (arm_64_lpae_alloc_pgtable_s2 (cfg_4k 43 48) (Some d0) s0))) = 0x10000"
proof -
  have h1: "arm_64_lpae_alloc_pgtable_s2 (cfg_4k 43 48) (Some d0) s0
     = (Some (the (fst (arm_64_lpae_alloc_pgtable_s2 (cfg_4k 43 48) (Some d0) s0))),
        fst (snd (arm_64_lpae_alloc_pgtable_s2 (cfg_4k 43 48) (Some d0) s0)),
        snd (snd (arm_64_lpae_alloc_pgtable_s2 (cfg_4k 43 48) (Some d0) s0)))"
    unfolding arm_64_lpae_alloc_pgtable_s2_def alloc_4k_43
    by (simp add: s2_concat_def Let_def tcr_ps_def io_pgtable_alloc_pages_exact_def s0_def cfg_4k_def
        ARM_LPAE_MAX_LEVELS_def ARM_LPAE_S2_MAX_CONCAT_PAGES_def)
  have h2: "pgsize_bitmap (cfg_4k 43 48) AND SZ_4K \<noteq> 0" by (simp add: cfg_4k_def SZ_4K_def)
  have h3: "ias (cfg_4k 43 48) = 43" by (simp add: cfg_4k_def)
  from s2_concat_geometry [OF h1 h2] h1 h2 h3 show ?thesis by simp
qed

theorem s1_tcr_fields_witness:
  "oas (cfg_4k 48 33) \<notin> {32, 36, 40, 42, 44, 48}
   \<and> fst (arm_64_lpae_alloc_pgtable_s1 (cfg_4k 48 33) (Some d0) s0) = None
   \<and> arm_64_lpae_alloc_pgtable_s1 (cfg_4k 48 48) (Some d0) s0 = (Some (the (fst (arm_64_lpae_alloc_pgtable_s1 (cfg_4k 48 48) (Some d0) s0))), fst (snd (arm_64_lpae_alloc_pgtable_s1 (cfg_4k 48 48) (Some d0) s0)), snd (snd (arm_64_lpae_alloc_pgtable_s1 (cfg_4k 48 48) (Some d0) s0)))
   \<and> ias (cfg_4k 48 48) \<noteq> 0
   \<and> take_bit 8 (drop_bit ARM_LPAE_TCR_T0SZ_SHIFT (s1_tcr (fst (snd (arm_64_lpae_alloc_pgtable_s1 (cfg_4k 48 48) (Some d0) s0))))) = 64 - ucast (ias (cfg_4k 48 48))
   \<and> take_bit 6 (drop_bit ARM_LPAE_TCR_T0SZ_SHIFT (s1_tcr (fst (snd (arm_64_lpae_alloc_pgtable_s1 (cfg_4k 48 48) (Some d0) s0))))) = 64 - ucast (ias (cfg_4k 48 48))
   \<and> bit (s1_tcr (fst (snd (arm_64_lpae_alloc_pgtable_s1 (cfg_4k 48 48) (Some d0) s0)))) ARM_LPAE_TCR_EPD1_SHIFT
   \<and> take_bit 2 (drop_bit 14 (s1_tcr (fst (snd (arm_64_lpae_alloc_pgtable_s1 (cfg_4k 48 48) (Some d0) s0))))) = tg0_code (pg_shift (the (fst (arm_64_lpae_alloc_pgtable_s1 (cfg_4k 48 48) (Some d0) s0))))
   \<and> take_bit 3 (drop_bit ARM_LPAE_TCR_IPS_SHIFT (s1_tcr (fst (snd (arm_64_lpae_alloc_pgtable_s1 (cfg_4k 48 48) (Some d0) s0))))) = ips_code (oas (cfg_4k 48 48))
   \<and> take_bit 2 (drop_bit ARM_LPAE_TCR_SH0_SHIFT (s1_tcr (fst (snd (arm_64_lpae_alloc_pgtable_s1 (cfg_4k 48 48) (Some d0) s0))))) = ARM_LPAE_TCR_SH_IS"
proof -
  have h1: "arm_64_lpae_alloc_pgtable_s1 (cfg_4k 48 48) (Some d0) s0 = (Some (the (fst (arm_64_lpae_alloc_pgtable_s1 (cfg_4k 48 48) (Some d0) s0))), fst (snd (arm_64_lpae_alloc_pgtable_s1 (cfg_4k 48 48) (Some d0) s0)), snd (snd (arm_64_lpae_alloc_pgtable_s1 (cfg_4k 48 48) (Some d0) s0)))"
    unfolding arm_64_lpae_alloc_pgtable_s1_def alloc_4k_48
    by (simp add: Let_def tcr_ps_def io_pgtable_alloc_pages_exact_def s0_def cfg_4k_def)
  have h2: "oas (cfg_4k 48 33) \<notin> {32, 36, 40, 42, 44, 48}" by (simp add: cfg_4k_def)
  have h3: "ias (cfg_4k 48 48) \<noteq> 0" by (simp add: cfg_4k_def)
  from s1_tcr_fields [of "cfg_4k 48 33" "Some d0" s0] h2
  have a: "fst (arm_64_lpae_alloc_pgtable_s1 (cfg_4k 48 33) (Some d0) s0) = None" by blast
  from s1_tcr_fields [of "cfg_4k 48 48" "Some d0" s0 "the (fst (arm_64_lpae_alloc_pgtable_s1 (cfg_4k 48 48) (Some d0) s0))" "fst (snd (arm_64_lpae_alloc_pgtable_s1 (cfg_4k 48 48) (Some d0) s0))" "snd (snd (arm_64_lpae_alloc_pgtable_s1 (cfg_4k 48 48) (Some d0) s0))"] h1 h3
  show ?thesis using a h2 by blast
qed

section \<open>Evaluation on the example configuration\<close>

lemmas geo_defs = ARM_LPAE_START_LVL_def ARM_LPAE_LVL_SHIFT_def ARM_LPAE_PAGES_PER_PGD_def ARM_LPAE_PGD_IDX_def
  ARM_LPAE_LVL_IDX_def ARM_LPAE_BLOCK_SIZE_def ARM_LPAE_MAX_LEVELS_def int_shl1_def

lemma ilog2_1: "ilog2 1 = 0"
  by (simp add: ilog2_def fls64_def eval_nat_numeral)

lemma d0_sel: "pg_shift d0 = 12" "bits_per_level d0 = 9" "levels d0 = 4" "pgd d0 = 0x10000" "pgd_size d0 = 0x1000"
  "iop_fmt d0 = ARM_64_LPAE_S1" "quirk_arm_ns (iop_cfg d0) = False" "pgsize_bitmap (iop_cfg d0) = 0x40201000"
  by (simp_all add: d0_def cfg_4k_def)

lemma d0_geo:
  "ARM_LPAE_START_LVL d0 = 0"
  "ARM_LPAE_BLOCK_SIZE 0 d0 = 0" "ARM_LPAE_BLOCK_SIZE 1 d0 = 0x40000000"
  "ARM_LPAE_BLOCK_SIZE 2 d0 = 0x200000" "ARM_LPAE_BLOCK_SIZE 3 d0 = 0x1000"
  "ARM_LPAE_LVL_IDX a 0 d0 = drop_bit 39 a AND 0x1ff"
  "ARM_LPAE_LVL_IDX a 1 d0 = drop_bit 30 a AND 0x1ff"
  "ARM_LPAE_LVL_IDX a 2 d0 = drop_bit 21 a AND 0x1ff"
  "ARM_LPAE_LVL_IDX a 3 d0 = drop_bit 12 a AND 0x1ff"
  "ARM_LPAE_LVL_SHIFT 0 d0 = 39" "ARM_LPAE_LVL_SHIFT 1 d0 = 30" "ARM_LPAE_LVL_SHIFT 2 d0 = 21" "ARM_LPAE_LVL_SHIFT 3 d0 = 12"
  by (simp_all add: geo_defs d0_sel ilog2_1)

lemma prot_rw: "arm_lpae_prot_to_pte d0 {IOMMU_READ, IOMMU_WRITE} = 0x840"
  by (simp add: arm_lpae_prot_to_pte_def d0_sel pte_consts)

lemma prot_r: "arm_lpae_prot_to_pte d0 {IOMMU_READ} = 0x8C0"
  by (simp add: arm_lpae_prot_to_pte_def d0_sel pte_consts)

lemmas map_eval = arm_lpae_map_def arm_lpae_map_rec.simps d0_sel d0_geo arm_lpae_init_pte_def
  init_pte_value_def pte_consts io_pgtable_alloc_pages_exact_def memset0_def flush_pgtable_def
  iopte_deref_def pfn_to_iopte_def ARM_LPAE_MAX_ADDR_BITS_def ARM_LPAE_MAX_LEVELS_def
  iopte_tblcnt_add_def codec_defs EEXIST_def ENOMEM_def EINVAL_def Let_def prot_rw prot_r


lemmas walk_eval = arm_lpae_iova_to_phys_def iova_to_phys_walk.simps d0_sel d0_geo iopte_leaf_def
  iopte_type_def ARM_LPAE_PTE_TYPE_SHIFT_def ARM_LPAE_PTE_TYPE_MASK_def pte_consts iopte_deref_def
  iopte_to_pfn_def ARM_LPAE_MAX_ADDR_BITS_def ARM_LPAE_MAX_LEVELS_def codec_defs int_shl1_def Let_def

lemmas unmap_eval = arm_lpae_unmap_def unmap_loop.simps arm_lpae_unmap_rec.simps unmap_table_entries_def
  unmap_entries_def int_div_def int_min_def signed_divide_int_def iopte_leaf_def iopte_type_def
  ARM_LPAE_PTE_TYPE_SHIFT_def ARM_LPAE_PTE_TYPE_MASK_def pte_consts iopte_deref_def
  iopte_tblcnt_sub_def codec_defs io_pgtable_free_pages_exact_def tlb_flush_all_def flush_pgtable_def
  memset0_def SZ_2M_def d0_sel d0_geo int_shl1_def ARM_LPAE_MAX_ADDR_BITS_def ARM_LPAE_MAX_LEVELS_def Let_def

lemma s_one_ok: "arm_lpae_map d0 0 0 0x1000 {IOMMU_READ, IOMMU_WRITE} s0 = Some (0, s_one)"
  unfolding s_one_def by (simp add: map_eval s0_def)

lemma s_two_ok: "arm_lpae_map d0 0x2000 0x2000 0x1000 {IOMMU_READ, IOMMU_WRITE} s_one = Some (0, s_two)"
  unfolding s_two_def s_one_def by (simp add: map_eval s0_def)


text \<open>
  C3, a failing input. A 2 MiB block is mapped at 1 GiB; a later \<open>map\<close> of one page inside
  it is not refused: \<open>__arm_lpae_map\<close> takes the block descriptor for a table descriptor,
  stores a page descriptor in the memory that the block maps (at its physical address
  \<open>0x80000000 + 8\<close>), adds 1 to the ignored bits of the block descriptor and returns 0.
\<close>

theorem map_inside_block_returns_0:
  "arm_lpae_map d0 0x40000000 0x80000000 0x200000 {IOMMU_READ, IOMMU_WRITE} s0 = Some (0, s_blk)
   \<and> arm_lpae_iova_to_phys d0 0x40001000 s_blk = 0x80001000
   \<and> arm_lpae_map d0 0x40001000 0x5000 0x1000 {IOMMU_READ} s_blk = Some (0, s_blk2)
   \<and> mem s_blk 0x80000008 = 0
   \<and> mem s_blk2 0x80000008 = 0x5FC3
   \<and> mem s_blk2 0x30000 \<noteq> mem s_blk 0x30000"
  unfolding s_blk2_def s_blk_def
  by (simp add: map_eval walk_eval s0_def)

text \<open>
  C2, a failing input. Two pages are mapped at 0 and at \<open>0x2000\<close>; \<open>unmap\<close> of the page
  between them, which is not mapped, returns the size asked for and takes 1 off the counter of
  the table descriptor at the second-to-last level: the counter is 1 while two entries of the
  table are not zero.
\<close>

theorem counter_after_unmap_of_hole:
  "arm_lpae_map d0 0 0 0x1000 {IOMMU_READ, IOMMU_WRITE} s0 = Some (0, s_one)
   \<and> arm_lpae_map d0 0x2000 0x2000 0x1000 {IOMMU_READ, IOMMU_WRITE} s_one = Some (0, s_two)
   \<and> iopte_tblcnt (mem s_two 0x30000) = 2
   \<and> arm_lpae_unmap d0 0x1000 0x1000 s_two = Some (0x1000, s_three)
   \<and> iopte_tblcnt (mem s_three 0x30000) = 1
   \<and> iopte_deref (mem s_three 0x30000) d0 = 0x40000
   \<and> mem s_three 0x40000 \<noteq> 0
   \<and> mem s_three 0x40010 \<noteq> 0"
  unfolding s_three_def s_two_def s_one_def
  by (simp add: map_eval unmap_eval s0_def)

text \<open>
  C10, a failing input. In the same state no address of the page at \<open>0x1000\<close> is mapped
  (its descriptor is 0), yet \<open>unmap\<close> of that page returns \<open>0x1000\<close> and calls
  \<open>tlb_flush_all\<close>.
\<close>

theorem unmap_of_hole_flushes:
  "mem s_two 0x40008 = 0
   \<and> arm_lpae_iova_to_phys d0 0x1000 s_two = 0
   \<and> arm_lpae_iova_to_phys d0 0x1fff s_two = 0
   \<and> Tlb_flush_all \<notin> set (trace s_two)
   \<and> arm_lpae_unmap d0 0x1000 0x1000 s_two = Some (0x1000, s_three)
   \<and> hd (trace s_three) = Tlb_flush_all"
  unfolding s_three_def s_two_def s_one_def
  by (simp add: map_eval unmap_eval walk_eval s0_def)

lemma pgsize_1: "iommu_pgsize 0x40201000 0x100000 0x1000 = Some 0x1000"
  by code_simp

lemmas sg_eval = arm_lpae_map_sg_def map_sg_list.simps map_sg_while.simps map_state_zero_def
  flush_map_state_def MAP_STATE_LVL_def round_down_def SZ_2M_def ffs_4k pgsize_1 int_shl1_def

theorem map_sg_misaligned_second_counterexample:
  "sg_offset (sg_bad ! 1) AND (int_shl1 (ffs (pgsize_bitmap (iop_cfg d0))) - 1) \<noteq> 0
   \<and> arm_lpae_map_sg d0 0 sg_bad {IOMMU_READ, IOMMU_WRITE} 0 s0 = Some (0, 0x1000, s_sg)
   \<and> arm_lpae_iova_to_phys d0 0x42 s0 = 0
   \<and> arm_lpae_iova_to_phys d0 0x42 s_sg = 0x100042"
  unfolding s_sg_def
  by (simp add: sg_bad_def sg_eval map_eval walk_eval s0_def)

lemma map_sg_list_True:
  assumes "map_sg_list data prot mp sg iova mapped ms s = Some (True, m', ms', s')"
  shows "\<forall>c\<in>set sg. sg_offset c AND (mp - 1) = 0"
  using assms
proof (induction sg arbitrary: iova mapped ms s)
  case Nil
  then show ?case by simp
next
  case (Cons c cs)
  from Cons.prems have al: "sg_offset c AND (mp - 1) = 0"
    by (auto split: if_splits)
  with Cons.prems obtain iova1 mapped1 ms1 s1 where
    "map_sg_list data prot mp cs iova1 mapped1 ms1 s1 = Some (True, m', ms', s')"
    by (auto split: option.splits if_splits)
  then have "\<forall>c\<in>set cs. sg_offset c AND (mp - 1) = 0" by (rule Cons.IH)
  with al show ?case by simp
qed

text \<open>
  C6, amended: when some chunk is misaligned, a call of \<open>map_sg\<close> that returns returns 0;
  when the first chunk is the misaligned one, the call returns 0, writes 0 as the remainder
  and leaves the state as it was.
\<close>

theorem map_sg_misaligned:
  assumes "\<exists>c\<in>set sg. sg_offset c AND (int_shl1 (ffs (pgsize_bitmap (iop_cfg data))) - 1) \<noteq> 0"
  shows "(arm_lpae_map_sg data iova sg prot size_in s = Some (r, rem, s') \<longrightarrow> r = 0)
       \<and> (sg_offset (hd sg) AND (int_shl1 (ffs (pgsize_bitmap (iop_cfg data))) - 1) \<noteq> 0
            \<longrightarrow> arm_lpae_map_sg data iova sg prot size_in s = Some (0, 0, s))"
proof (intro conjI impI)
  let ?mp = "int_shl1 (ffs (pgsize_bitmap (iop_cfg data)))"
  assume r: "arm_lpae_map_sg data iova sg prot size_in s = Some (r, rem, s')"
  show "r = 0"
  proof (cases "IOMMU_READ \<notin> prot \<and> IOMMU_WRITE \<notin> prot")
    case True
    with r show ?thesis by (simp add: arm_lpae_map_sg_def)
  next
    case False
    with r obtain ok m ms1 s1 where
      l: "map_sg_list data (arm_lpae_prot_to_pte data prot) ?mp sg iova 0 map_state_zero s
            = Some (ok, m, ms1, s1)" and rr: "r = (if ok then ucast m else 0)"
      by (auto simp: arm_lpae_map_sg_def split: option.splits bool.splits)
    have "\<not> ok"
    proof
      assume ok
      with l have "\<forall>c\<in>set sg. sg_offset c AND (?mp - 1) = 0"
        using map_sg_list_True by simp
      with assms show False by blast
    qed
    with rr show ?thesis by simp
  qed
next
  let ?mp = "int_shl1 (ffs (pgsize_bitmap (iop_cfg data)))"
  assume h: "sg_offset (hd sg) AND (?mp - 1) \<noteq> 0"
  from assms obtain c cs where sg: "sg = c # cs" by (cases sg) auto
  with h have "map_sg_list data (arm_lpae_prot_to_pte data prot) ?mp sg iova 0 map_state_zero s
                 = Some (False, 0, map_state_zero, s)"
    by simp
  then show "arm_lpae_map_sg data iova sg prot size_in s = Some (0, 0, s)"
    by (simp add: arm_lpae_map_sg_def)
qed

theorem map_sg_misaligned_witness:
  "sg_offset (hd sg_bad1) AND (int_shl1 (ffs (pgsize_bitmap (iop_cfg d0))) - 1) \<noteq> 0
   \<and> arm_lpae_map_sg d0 0 sg_bad1 {IOMMU_READ, IOMMU_WRITE} 0 s0 = Some (0, 0, s0)"
proof -
  have h: "sg_offset (hd sg_bad1) AND (int_shl1 (ffs (pgsize_bitmap (iop_cfg d0))) - 1) \<noteq> 0"
    by (simp add: sg_bad1_def d0_sel ffs_4k int_shl1_def)
  then have "\<exists>c\<in>set sg_bad1. sg_offset c AND (int_shl1 (ffs (pgsize_bitmap (iop_cfg d0))) - 1) \<noteq> 0"
    by (simp add: sg_bad1_def)
  from map_sg_misaligned [OF this, of 0 "{IOMMU_READ, IOMMU_WRITE}" 0 s0] h show ?thesis by blast
qed


section \<open>Aligned addresses\<close>

lemma mask_zero_bits:
  fixes x :: "64 word"
  assumes "x AND mask n = 0" "i < n"
  shows "\<not> bit x i"
proof -
  have "bit (x AND mask n) i = False" using assms(1) by simp
  then show ?thesis using assms(2) by (auto simp: bit_simps dest: bit_imp_le_length)
qed

lemma add_eq_or:
  fixes x k :: "64 word"
  assumes "x AND mask n = 0" "k < 2 ^ n"
  shows "x + k = x OR k"
proof (rule disjunctive_add)
  fix i
  have "\<not> bit k i" if "n \<le> i" using bit_small [OF assms(2), of i] that by auto
  then show "\<not> bit x i \<or> \<not> bit k i"
    using mask_zero_bits [OF assms(1), of i] by (cases "i < n") auto
qed

lemma drop_bit_add_aligned:
  fixes x k :: "64 word"
  assumes "x AND mask n = 0" "k < 2 ^ n" "n \<le> m"
  shows "drop_bit m (x + k) = drop_bit m x"
proof -
  have "drop_bit m k = 0"
  proof (rule bit_word_eqI)
    fix i assume "i < LENGTH(64)"
    show "bit (drop_bit m k) i = bit (0 :: 64 word) i"
      using bit_small [OF assms(2), of "m + i"] assms(3) by (auto simp: bit_drop_bit_eq)
  qed
  then show ?thesis by (simp add: add_eq_or [OF assms(1,2)] drop_bit_or)
qed

lemma and_mask_add_aligned:
  fixes x k :: "64 word"
  assumes "x AND mask n = 0" "k < 2 ^ n"
  shows "(x + k) AND mask n = k"
proof -
  have "k AND mask n = k" using assms(2) by (rule less_mask_eq)
  then show ?thesis
    by (simp add: add_eq_or [OF assms] bit.conj_disj_distrib2 assms(1))
qed

text \<open>An address lies in the page at \<open>p\<close> exactly when it is \<open>p\<close> plus an offset.\<close>

lemma page_of_in_page:
  fixes p a :: "64 word"
  assumes "p AND mask n = 0" "a - p < 2 ^ n"
  shows "a AND NOT (mask n) = p"
proof -
  have "a = p + (a - p)" by simp
  also have "\<dots> = p OR (a - p)" using assms by (rule add_eq_or)
  finally have a: "a = p OR (a - p)" .
  have "(a - p) AND NOT (mask n) = 0"
  proof (rule bit_word_eqI)
    fix i assume "i < LENGTH(64)"
    show "bit ((a - p) AND NOT (mask n)) i = bit (0 :: 64 word) i"
      using bit_small [OF assms(2), of i] by (auto simp: bit_simps)
  qed
  moreover have "p AND NOT (mask n) = p"
  proof (rule bit_word_eqI)
    fix i assume "i < LENGTH(64)"
    show "bit (p AND NOT (mask n)) i = bit p i"
      using mask_zero_bits [OF assms(1), of i] by (auto simp: bit_simps dest: bit_imp_le_length)
  qed
  ultimately show ?thesis
    by (subst a) (simp add: bit.conj_disj_distrib2)
qed

lemma pages_disjoint:
  fixes p q a :: "64 word"
  assumes "p AND mask n = 0" "q AND mask n = 0" "a - p < 2 ^ n" "a - q < 2 ^ n"
  shows "p = q"
  using page_of_in_page [OF assms(1,3)] page_of_in_page [OF assms(2,4)] by simp

section \<open>Geometry of a valid configuration\<close>

lemma lvl_shift_eq:
  "ARM_LPAE_LVL_SHIFT l d = nat ((3 - l) * int (bits_per_level d) + int (pg_shift d))"
  by (simp add: ARM_LPAE_LVL_SHIFT_def ARM_LPAE_START_LVL_def ARM_LPAE_MAX_LEVELS_def algebra_simps)

lemma block_size_eq:
  assumes "geom_ok d"
  shows "ARM_LPAE_BLOCK_SIZE l d = int_shl1 (ARM_LPAE_LVL_SHIFT l d)"
proof -
  have "3 + (4 - l) * int (bits_per_level d) = (3 - l) * int (bits_per_level d) + int (pg_shift d)"
    using assms by (auto simp: geom_ok_def algebra_simps)
  then show ?thesis
    by (simp add: ARM_LPAE_BLOCK_SIZE_def lvl_shift_eq ARM_LPAE_MAX_LEVELS_def)
qed

lemma lvl_shift_cases:
  assumes "geom_ok d" "0 \<le> l" "l \<le> 3"
  shows "ARM_LPAE_LVL_SHIFT l d \<in> {12, 21, 30, 39, 14, 25, 36, 47, 16, 29, 42, 55}"
proof -
  from assms(2,3) have "l = 0 \<or> l = 1 \<or> l = 2 \<or> l = 3" by auto
  then show ?thesis using assms(1) by (auto simp: geom_ok_def lvl_shift_eq)
qed

lemma lvl_shift_mono:
  assumes "l \<le> l'" "l' \<le> 3"
  shows "ARM_LPAE_LVL_SHIFT l' d \<le> ARM_LPAE_LVL_SHIFT l d"
proof -
  have "(3 - l') * int (bits_per_level d) \<le> (3 - l) * int (bits_per_level d)"
    using assms by (intro mult_right_mono) auto
  then show ?thesis by (simp add: lvl_shift_eq)
qed

lemma lvl_shift_ge_pg:
  assumes "l \<le> 3"
  shows "pg_shift d \<le> ARM_LPAE_LVL_SHIFT l d"
proof -
  have "0 \<le> (3 - l) * int (bits_per_level d)" using assms by simp
  then show ?thesis by (simp add: lvl_shift_eq)
qed

lemma scast_shl1:
  assumes "S \<in> {12, 21, 30, 14, 25, 16, 29 :: nat}"
  shows "(scast (int_shl1 S) :: 64 word) = 2 ^ S" and "(scast (int_shl1 S - 1) :: 64 word) = mask S"
  using assms by (auto simp: int_shl1_def mask_eq_exp_minus_1)

lemma scast_shl1_big:
  assumes "S \<in> {39, 36, 47, 42, 55 :: nat}"
  shows "(scast (int_shl1 S) :: 64 word) = 0"
  using assms by (auto simp: int_shl1_def)

lemma leaf_here_size:
  assumes "geom_ok d" "0 \<le> l" "l \<le> 3" "leaf_here d sz l"
  shows "sz = 2 ^ ARM_LPAE_LVL_SHIFT l d"
    and "ARM_LPAE_LVL_SHIFT l d \<in> {12, 21, 30, 14, 25, 16, 29}"
proof -
  let ?S = "ARM_LPAE_LVL_SHIFT l d"
  from assms(4) have sz: "sz = scast (int_shl1 ?S)" and nz: "sz \<noteq> 0"
    by (auto simp: leaf_here_def block_size_eq [OF assms(1)])
  have "?S \<notin> {39, 36, 47, 42, 55}" using scast_shl1_big [of ?S] sz nz by auto
  with lvl_shift_cases [OF assms(1-3)] show c: "?S \<in> {12, 21, 30, 14, 25, 16, 29}" by auto
  show "sz = 2 ^ ?S" using scast_shl1(1) [OF c] sz by simp
qed

section \<open>One step of the mapping walk\<close>

lemma map_rec_leaf:
  assumes "leaf_here d sz l"
  shows "arm_lpae_map_rec d iova pa sz prot l tbl prev None s =
         map_option (\<lambda>(r, s'). (r, None, s'))
           (arm_lpae_init_pte d iova pa prot l (tbl + 8 * ARM_LPAE_LVL_IDX iova l d) prev True s)"
  using assms by (subst arm_lpae_map_rec.simps) (auto simp: leaf_here_def Let_def)

lemma map_rec_einval:
  assumes "\<not> leaf_here d sz l" "3 \<le> l"
  shows "arm_lpae_map_rec d iova pa sz prot l tbl prev None s = Some (- EINVAL, None, s)"
  using assms
  by (subst arm_lpae_map_rec.simps) (auto simp: leaf_here_def Let_def ARM_LPAE_MAX_LEVELS_def)

lemma map_rec_follow:
  assumes "\<not> leaf_here d sz l" "l < 3" "mem s (tbl + 8 * ARM_LPAE_LVL_IDX iova l d) \<noteq> 0"
  shows "arm_lpae_map_rec d iova pa sz prot l tbl prev None s =
         arm_lpae_map_rec d iova pa sz prot (l + 1)
           (iopte_deref (mem s (tbl + 8 * ARM_LPAE_LVL_IDX iova l d)) d)
           (tbl + 8 * ARM_LPAE_LVL_IDX iova l d) None s"
  using assms
  by (subst arm_lpae_map_rec.simps) (auto simp: leaf_here_def Let_def ARM_LPAE_MAX_LEVELS_def)

lemma map_rec_alloc:
  assumes "\<not> leaf_here d sz l" "l < 3" "mem s (tbl + 8 * ARM_LPAE_LVL_IDX iova l d) = 0"
    and "pool s = c # rest" "c \<noteq> 0"
  shows "arm_lpae_map_rec d iova pa sz prot l tbl prev None s =
         arm_lpae_map_rec d iova pa sz prot (l + 1) c (tbl + 8 * ARM_LPAE_LVL_IDX iova l d) None
           (after_alloc d (tbl + 8 * ARM_LPAE_LVL_IDX iova l d) c rest s)"
  using assms
  by (subst arm_lpae_map_rec.simps)
     (auto simp: leaf_here_def Let_def ARM_LPAE_MAX_LEVELS_def io_pgtable_alloc_pages_exact_def
        after_alloc_def)

lemma map_rec_nomem:
  assumes "\<not> leaf_here d sz l" "l < 3" "mem s (tbl + 8 * ARM_LPAE_LVL_IDX iova l d) = 0"
    and "pool s = [] \<or> hd (pool s) = 0"
  shows "\<exists>s'. arm_lpae_map_rec d iova pa sz prot l tbl prev None s = Some (- ENOMEM, None, s')"
  using assms
  by (subst arm_lpae_map_rec.simps)
     (auto simp: leaf_here_def Let_def ARM_LPAE_MAX_LEVELS_def io_pgtable_alloc_pages_exact_def
        split: list.splits)

lemma after_alloc_mem:
  "mem (after_alloc d ptep c rest s) x =
     (if x = ptep then (if quirk_arm_ns (iop_cfg d) then c OR ARM_LPAE_PTE_TYPE_TABLE OR ARM_LPAE_PTE_NSTABLE
                        else c OR ARM_LPAE_PTE_TYPE_TABLE)
      else if in_page d c x then 0 else mem s x)"
  by (simp add: after_alloc_def Let_def memset0_def flush_pgtable_def in_page_def or.assoc)

lemma after_alloc_pool: "pool (after_alloc d ptep c rest s) = rest"
  by (simp add: after_alloc_def Let_def memset0_def flush_pgtable_def)

lemma init_pte_0:
  assumes "arm_lpae_init_pte d iova pa prot l ptep prev flush s = Some (0, s')"
  shows "mem s' = (if prev \<noteq> 0
                   then (\<lambda>m. m(prev := iopte_tblcnt_add (m prev) 1)) ((mem s)(ptep := init_pte_value d pa prot l))
                   else (mem s)(ptep := init_pte_value d pa prot l))"
    and "pool s' = pool s"
  using assms
  by (auto simp: arm_lpae_init_pte_def Let_def flush_pgtable_def EEXIST_def split: if_splits)

lemma init_pte_frame:
  assumes "arm_lpae_init_pte d iova pa prot l ptep prev flush s = Some (r, s')"
  shows "x \<noteq> ptep \<Longrightarrow> x \<noteq> prev \<Longrightarrow> mem s' x = mem s x"
    and "prev \<noteq> ptep \<Longrightarrow> iopte_val (mem s' prev) = iopte_val (mem s prev)"
    and "pool s' = pool s"
  using assms
  by (auto simp: arm_lpae_init_pte_def Let_def flush_pgtable_def iopte_val_tblcnt_add split: if_splits)

section \<open>Table descriptors and slots\<close>

lemma push1_eq: "push_bit n (1 :: 64 word) = 2 ^ n"
  by (simp add: push_bit_eq_mult)

lemma idx_in_page:
  assumes "geom_ok d" "l \<noteq> ARM_LPAE_START_LVL d"
  shows "in_page d c (c + 8 * ARM_LPAE_LVL_IDX a l d)"
proof -
  let ?n = "bits_per_level d"
  let ?X = "drop_bit (ARM_LPAE_LVL_SHIFT l d) a"
  have n: "?n = 9 \<or> ?n = 11 \<or> ?n = 13" and pg: "pg_shift d = ?n + 3"
    using assms(1) by (auto simp: geom_ok_def)
  have m: "(scast (int_shl1 ?n - 1) :: 64 word) = mask ?n"
    using n by (auto simp: int_shl1_def mask_eq_exp_minus_1)
  have idx: "ARM_LPAE_LVL_IDX a l d = ?X AND mask ?n"
    using assms(2) by (simp add: ARM_LPAE_LVL_IDX_def ARM_LPAE_PGD_IDX_def m)
  have "8 * (?X AND mask ?n) = push_bit 3 (take_bit ?n ?X)"
    by (simp add: push_bit_eq_mult take_bit_eq_mask)
  also have "\<dots> = take_bit (?n + 3) (push_bit 3 ?X)"
    by (simp add: take_bit_push_bit)
  also have "\<dots> < 2 ^ (?n + 3)"
    using n and_mask_less_size [of "?n + 3" "push_bit 3 ?X"]
    by (auto simp: take_bit_eq_mask word_size)
  finally show ?thesis by (simp add: in_page_def idx pg push1_eq)
qed

lemma page_ok_aligned:
  assumes "page_ok d p"
  shows "p AND mask (pg_shift d) = 0" and "p < 2 ^ 48" and "p \<noteq> 0"
  using assms unfolding page_ok_def mask_eq_exp_minus_1 push1_eq by auto

lemma in_page_unique:
  assumes "page_ok d p" "page_ok d q" "in_page d p a" "in_page d q a"
  shows "p = q"
  using pages_disjoint [OF page_ok_aligned(1) [OF assms(1)] page_ok_aligned(1) [OF assms(2)]]
    assms(3,4)
  by (simp add: in_page_def push1_eq)

lemma table_desc:
  assumes "geom_ok d" "page_ok d c"
    and "iopte_val pte = iopte_val (if quirk_arm_ns (iop_cfg d)
            then c OR ARM_LPAE_PTE_TYPE_TABLE OR ARM_LPAE_PTE_NSTABLE else c OR ARM_LPAE_PTE_TYPE_TABLE)"
  shows "iopte_deref pte d = c" and "iopte_type pte = ARM_LPAE_PTE_TYPE_TABLE"
proof -
  define t where "t = (if quirk_arm_ns (iop_cfg d)
            then c OR ARM_LPAE_PTE_TYPE_TABLE OR ARM_LPAE_PTE_NSTABLE else c OR ARM_LPAE_PTE_TYPE_TABLE)"
  have v: "iopte_val pte = iopte_val t" using assms(3) by (simp add: t_def)
  have pg: "12 \<le> pg_shift d" "pg_shift d < 48" using assms(1) by (auto simp: geom_ok_def)
  have lo: "\<not> bit c i" if "i < pg_shift d" for i
    using mask_zero_bits [OF page_ok_aligned(1) [OF assms(2)] that] .
  have hi: "\<not> bit c i" if "48 \<le> i" for i
    using bit_small [OF page_ok_aligned(2) [OF assms(2)], of i] that by auto
  have cb: "pg_shift d \<le> i \<and> i < 48" if "bit c i" for i
    using lo hi that not_le_imp_less by blast
  have bt: "bit t i \<longleftrightarrow> bit c i \<or> i = 0 \<or> i = 1 \<or> (quirk_arm_ns (iop_cfg d) \<and> i = 63)" for i
    unfolding t_def ARM_LPAE_PTE_TYPE_TABLE_def ARM_LPAE_PTE_NSTABLE_def
    by (cases "quirk_arm_ns (iop_cfg d)"; simp only: if_True if_False bit_or_iff bit_pb1 bit_w3)
       (auto dest: bit_imp_le_length)
  have "iopte_deref t d = c"
  proof (rule bit_word_eqI)
    fix i assume "i < LENGTH(64)"
    show "bit (iopte_deref t d) i = bit c i"
      unfolding iopte_deref_def codec_defs ARM_LPAE_MAX_ADDR_BITS_def mask_as mask10 mask7
      using cb [of i] pg
      by (simp only: bit_and_iff bit_not_iff bit_or_iff bit_mask_iff bit_push_bit_iff bt
          possible_bit_word) auto
  qed
  then show "iopte_deref pte d = c" using iopte_deref_cong [OF v] by simp
  have "iopte_type t = ARM_LPAE_PTE_TYPE_TABLE"
  proof (rule bit_word_eqI)
    fix i assume "i < LENGTH(64)"
    show "bit (iopte_type t) i = bit ARM_LPAE_PTE_TYPE_TABLE i"
      unfolding iopte_type_def ARM_LPAE_PTE_TYPE_SHIFT_def ARM_LPAE_PTE_TYPE_MASK_def
        ARM_LPAE_PTE_TYPE_TABLE_def
      using cb [of i] pg
      by (simp only: bit_and_iff bit_drop_bit_eq o_apply bit_w3 bt add_0) auto
  qed
  then show "iopte_type pte = ARM_LPAE_PTE_TYPE_TABLE" using iopte_type_cong [OF v] by simp
qed

lemma type_table_facts:
  assumes "iopte_type pte = ARM_LPAE_PTE_TYPE_TABLE"
  shows "pte \<noteq> 0" and "l \<noteq> 3 \<Longrightarrow> \<not> iopte_leaf pte l"
  using assms
  by (auto simp: iopte_type_def iopte_leaf_def ARM_LPAE_PTE_TYPE_TABLE_def ARM_LPAE_PTE_TYPE_BLOCK_def
      ARM_LPAE_PTE_TYPE_MASK_def ARM_LPAE_MAX_LEVELS_def)

section \<open>The leaf that a mapping installs\<close>

lemma prot_to_pte_sub:
  "arm_lpae_prot_to_pte d prot OR 0x60000000000FFC = 0x60000000000FFC"
  unfolding arm_lpae_prot_to_pte_def pte_consts Let_def by simp

lemma bit_prot_to_pte:
  assumes "bit (arm_lpae_prot_to_pte d prot) n"
  shows "2 \<le> n \<and> (n < 12 \<or> 48 \<le> n)"
proof -
  have K: "(0x60000000000FFC :: 64 word) = push_bit 2 (mask 10) OR push_bit 53 3"
    by (simp add: mask_eq_exp_minus_1)
  have "bit (arm_lpae_prot_to_pte d prot OR 0x60000000000FFC) n"
    using assms by (simp only: bit_or_iff) simp
  then have "bit (0x60000000000FFC :: 64 word) n"
    by (simp only: prot_to_pte_sub)
  then have "bit (push_bit 2 (mask 10) OR push_bit 53 3 :: 64 word) n"
    by (simp only: K)
  then show ?thesis
    by (simp only: bit_or_iff bit_pb3 bit_push_bit_iff bit_mask_iff possible_bit_word) auto
qed

lemma lvl_idx_add:
  assumes "iova AND mask n = 0" "k < 2 ^ n" "n \<le> ARM_LPAE_LVL_SHIFT l d"
  shows "ARM_LPAE_LVL_IDX (iova + k) l d = ARM_LPAE_LVL_IDX iova l d"
  by (simp add: ARM_LPAE_LVL_IDX_def drop_bit_add_aligned [OF assms])

lemma leaf_translate:
  assumes g: "geom_ok d" and l: "0 \<le> l" "l \<le> 3" and lf: "leaf_here d sz l"
    and prot: "\<And>n. bit prot n \<Longrightarrow> 2 \<le> n \<and> (n < 12 \<or> 48 \<le> n)"
    and al: "iova AND (sz - 1) = 0" "pa AND (sz - 1) = 0" and pa: "pa < 2 ^ 48" and k: "k < sz"
  shows "init_pte_value d pa prot l \<noteq> 0"
    and "iopte_leaf (init_pte_value d pa prot l) l"
    and "push_bit (pg_shift d) (iopte_to_pfn (init_pte_value d pa prot l) d)
         OR ((iova + k) AND scast (int_shl1 (ARM_LPAE_LVL_SHIFT l d) - 1)) = pa + k"
proof -
  let ?v = "init_pte_value d pa prot l"
  let ?S = "ARM_LPAE_LVL_SHIFT l d"
  have sz: "sz = 2 ^ ?S" and S: "?S \<in> {12, 21, 30, 14, 25, 16, 29}"
    using leaf_here_size [OF g l lf] by auto
  have m: "(scast (int_shl1 ?S - 1) :: 64 word) = mask ?S" using scast_shl1(2) [OF S] .
  have pgS: "pg_shift d \<le> ?S" using lvl_shift_ge_pg [OF l(2)] .
  have pg: "12 \<le> pg_shift d" "pg_shift d < 48" using g by (auto simp: geom_ok_def)
  have al': "iova AND mask ?S = 0" "pa AND mask ?S = 0" and k': "k < 2 ^ ?S"
    using al k by (simp_all add: sz mask_eq_exp_minus_1)
  have b0: "bit ?v 0" by (simp add: bit_init_pte_value)
  then show "?v \<noteq> 0" by auto
  have b1: "bit ?v (Suc 0) \<longleftrightarrow> l = 3"
    using prot [of "Suc 0"] pg by (auto simp: bit_init_pte_value)
  have "iopte_type ?v = (if l = 3 then 3 else 1)"
  proof (rule bit_word_eqI)
    fix i assume "i < LENGTH(64)"
    show "bit (iopte_type ?v) i = bit (if l = 3 then 3 else 1 :: 64 word) i"
      unfolding iopte_type_def ARM_LPAE_PTE_TYPE_SHIFT_def ARM_LPAE_PTE_TYPE_MASK_def
      using b0 b1
      by (simp only: bit_and_iff bit_drop_bit_eq o_apply bit_w3 bit_w1 add_0
          if_distrib [of "\<lambda>w. bit w i"]) auto
  qed
  then show "iopte_leaf ?v l"
    by (cases "l = 3")
       (simp_all add: iopte_leaf_def ARM_LPAE_MAX_LEVELS_def ARM_LPAE_PTE_TYPE_PAGE_def
        ARM_LPAE_PTE_TYPE_BLOCK_def)
  have lo: "?S \<le> i" if "bit pa i" for i using mask_zero_bits [OF al'(2), of i] that by (cases "i < ?S") auto
  have hi: "i < 48" if "bit pa i" for i using bit_small [OF pa that] .
  have "push_bit (pg_shift d) (iopte_to_pfn ?v d) = pa"
  proof (rule bit_word_eqI)
    fix i assume i: "i < LENGTH(64)"
    have "bit (push_bit (pg_shift d) (iopte_to_pfn ?v d)) i
          \<longleftrightarrow> pg_shift d \<le> i \<and> i < 48 \<and> bit ?v i"
      unfolding iopte_to_pfn_def ARM_LPAE_MAX_ADDR_BITS_def mask_as
      using i by (auto simp: bit_push_bit_iff bit_drop_bit_eq bit_and_iff bit_mask_iff)
    also have "\<dots> \<longleftrightarrow> bit pa i"
      using prot [of i] pg pgS lo [of i] hi [of i] by (auto simp: bit_init_pte_value)
    finally show "bit (push_bit (pg_shift d) (iopte_to_pfn ?v d)) i = bit pa i" .
  qed
  moreover have "(iova + k) AND mask ?S = k" using and_mask_add_aligned [OF al'(1) k'] .
  moreover have "pa OR k = pa + k" using add_eq_or [OF al'(2) k'] by simp
  ultimately show "push_bit (pg_shift d) (iopte_to_pfn ?v d)
         OR ((iova + k) AND scast (int_shl1 ?S - 1)) = pa + k"
    by (simp add: m)
qed

section \<open>The path of a mapping\<close>

lemma map_path_stop:
  assumes "leaf_here d sz l \<or> 3 \<le> l \<or> mem s (tbl + 8 * ARM_LPAE_LVL_IDX iova l d) = 0"
  shows "map_path d iova sz l tbl s = [(tbl, tbl + 8 * ARM_LPAE_LVL_IDX iova l d)]"
  using assms by (subst map_path.simps) (auto simp: ARM_LPAE_MAX_LEVELS_def)

lemma map_path_follow:
  assumes "\<not> leaf_here d sz l" "l < 3" "mem s (tbl + 8 * ARM_LPAE_LVL_IDX iova l d) \<noteq> 0"
  shows "map_path d iova sz l tbl s =
         (tbl, tbl + 8 * ARM_LPAE_LVL_IDX iova l d)
         # map_path d iova sz (l + 1) (iopte_deref (mem s (tbl + 8 * ARM_LPAE_LVL_IDX iova l d)) d) s"
  using assms by (subst map_path.simps) (auto simp: ARM_LPAE_MAX_LEVELS_def)

lemma map_path_hd:
  "\<exists>rest. map_path d iova sz l tbl s = (tbl, tbl + 8 * ARM_LPAE_LVL_IDX iova l d) # rest"
  by (subst map_path.simps) auto

lemma path_ok_hd:
  assumes "path_ok d ((tbl, slot) # rest) prev s"
  shows "tbl \<noteq> 0" and "slot \<noteq> prev" and "slot \<notin> snd ` set rest"
    and "\<And>p. p \<in> set (pool s) \<Longrightarrow> p \<noteq> 0 \<Longrightarrow> page_ok d p \<and> \<not> in_page d p slot \<and> \<not> in_page d p prev"
    and "distinct (filter (\<lambda>p. p \<noteq> 0) (pool s))"
  using assms by (auto simp: path_ok_def list_all_iff)

lemma path_ok_tl:
  assumes "path_ok d ((tbl, slot) # rest) prev s" "rest \<noteq> []"
  shows "path_ok d rest slot s" and "iopte_type (mem s slot) = ARM_LPAE_PTE_TYPE_TABLE"
  using assms by (auto simp: path_ok_def list_all_iff)

lemma path_ok_alloc:
  assumes g: "geom_ok d" and p: "path_ok d [(tbl, slot)] prev s"
    and pool: "pool s = c # rest" "c \<noteq> 0" and l: "l \<noteq> ARM_LPAE_START_LVL d"
  shows "path_ok d [(c, c + 8 * ARM_LPAE_LVL_IDX iova l d)] slot (after_alloc d slot c rest s)"
proof -
  let ?x = "c + 8 * ARM_LPAE_LVL_IDX iova l d"
  have c: "page_ok d c" "\<not> in_page d c slot" using path_ok_hd(4) [OF p, of c] pool by auto
  have x: "in_page d c ?x" using idx_in_page [OF g l] .
  have "?x \<noteq> slot" using c(2) x by auto
  moreover have "page_ok d q \<and> \<not> in_page d q slot \<and> \<not> in_page d q ?x"
    if "q \<in> set rest" "q \<noteq> 0" for q
  proof -
    have q: "page_ok d q" "\<not> in_page d q slot" using path_ok_hd(4) [OF p, of q] pool that by auto
    have "q \<noteq> c" using path_ok_hd(5) [OF p] pool that by auto
    then have "\<not> in_page d q ?x" using in_page_unique [OF q(1) c(1) _ x] by auto
    then show ?thesis using q by simp
  qed
  moreover have "distinct (filter (\<lambda>p. p \<noteq> 0) rest)" using path_ok_hd(5) [OF p] pool by simp
  ultimately show ?thesis using pool(2)
    by (auto simp: path_ok_def list_all_iff after_alloc_pool)
qed

section \<open>One step of the translation walk\<close>

lemma walk_leaf:
  assumes "tbl \<noteq> 0" "mem s (tbl + 8 * ARM_LPAE_LVL_IDX a l d) \<noteq> 0"
    and "iopte_leaf (mem s (tbl + 8 * ARM_LPAE_LVL_IDX a l d)) l"
  shows "iova_to_phys_walk d a l tbl s =
         push_bit (pg_shift d) (iopte_to_pfn (mem s (tbl + 8 * ARM_LPAE_LVL_IDX a l d)) d)
         OR (a AND scast (int_shl1 (ARM_LPAE_LVL_SHIFT l d) - 1))"
  using assms by (subst iova_to_phys_walk.simps) (simp add: Let_def)

lemma walk_table:
  assumes "tbl \<noteq> 0" "iopte_type (mem s (tbl + 8 * ARM_LPAE_LVL_IDX a l d)) = ARM_LPAE_PTE_TYPE_TABLE"
    and "l < 3"
  shows "iova_to_phys_walk d a l tbl s =
         iova_to_phys_walk d a (l + 1) (iopte_deref (mem s (tbl + 8 * ARM_LPAE_LVL_IDX a l d)) d) s"
  using assms type_table_facts(1) [OF assms(2)] type_table_facts(2) [OF assms(2), where l = l]
  by (subst iova_to_phys_walk.simps) (simp add: Let_def ARM_LPAE_MAX_LEVELS_def)

section \<open>Mapping, then translating\<close>

lemma map_rec_correct:
  assumes g: "geom_ok d"
    and prot: "\<And>n. bit prot n \<Longrightarrow> 2 \<le> n \<and> (n < 12 \<or> 48 \<le> n)"
    and al: "iova AND (sz - 1) = 0" "pa AND (sz - 1) = 0" and pa: "pa < 2 ^ 48" and k: "k < sz"
  shows "\<lbrakk>nat (3 - l) = n; ARM_LPAE_START_LVL d \<le> l; l \<le> 3;
          path_ok d (map_path d iova sz l tbl s) prev s;
          arm_lpae_map_rec d iova pa sz prot l tbl prev None s = Some (0, ms, s')\<rbrakk>
         \<Longrightarrow> (\<exists>l'. l \<le> l' \<and> l' \<le> 3 \<and> leaf_here d sz l')
           \<and> iova_to_phys_walk d (iova + k) l tbl s' = pa + k
           \<and> (\<forall>x. x \<notin> snd ` set (map_path d iova sz l tbl s)
                  \<longrightarrow> (\<forall>p\<in>set (pool s). p \<noteq> 0 \<longrightarrow> \<not> in_page d p x)
                  \<longrightarrow> iopte_val (mem s' x) = iopte_val (mem s x))"
proof (induction n arbitrary: l tbl prev s rule: less_induct)
  case (less n)
  let ?slot = "tbl + 8 * ARM_LPAE_LVL_IDX iova l d"
  let ?path = "map_path d iova sz l tbl s"
  note lb = less.prems(2,3)
  note po = less.prems(4)
  note run = less.prems(5)
  have l0: "0 \<le> l" using g lb(1) by (auto simp: geom_ok_def ARM_LPAE_START_LVL_def ARM_LPAE_MAX_LEVELS_def)
  obtain rest0 where p0: "?path = (tbl, ?slot) # rest0" using map_path_hd by blast
  have tbl: "tbl \<noteq> 0" and sp: "?slot \<noteq> prev"
    and pl: "\<And>p. p \<in> set (pool s) \<Longrightarrow> p \<noteq> 0 \<Longrightarrow> page_ok d p \<and> \<not> in_page d p ?slot"
    using path_ok_hd [OF po [unfolded p0]] by auto
  \<comment> \<open>the slot read for \<open>iova + k\<close> is the slot of \<open>iova\<close>, below a level that holds the leaf\<close>
  have same: "ARM_LPAE_LVL_IDX (iova + k) l d = ARM_LPAE_LVL_IDX iova l d"
    if "l \<le> l'" "l' \<le> 3" "leaf_here d sz l'" for l'
  proof -
    have l'0: "0 \<le> l'" using l0 that(1) by simp
    have sz: "sz = 2 ^ ARM_LPAE_LVL_SHIFT l' d" using leaf_here_size(1) [OF g l'0 that(2,3)] .
    have "iova AND mask (ARM_LPAE_LVL_SHIFT l' d) = 0" "k < 2 ^ ARM_LPAE_LVL_SHIFT l' d"
      using al(1) k sz by (simp_all add: mask_eq_exp_minus_1)
    then show ?thesis using lvl_shift_mono [OF that(1,2), of d] by (rule lvl_idx_add)
  qed
  show ?case
  proof (cases "leaf_here d sz l")
    case True
    have path: "?path = [(tbl, ?slot)]" using True by (simp add: map_path_stop)
    from run have ip: "arm_lpae_init_pte d iova pa prot l ?slot prev True s = Some (0, s')"
      by (auto simp: map_rec_leaf [OF True])
    have v: "mem s' ?slot = init_pte_value d pa prot l"
      using init_pte_0(1) [OF ip] sp by auto
    have idx: "ARM_LPAE_LVL_IDX (iova + k) l d = ARM_LPAE_LVL_IDX iova l d"
      using same [OF _ lb(2) True] by simp
    have "iova_to_phys_walk d (iova + k) l tbl s' = pa + k"
      using walk_leaf [of tbl s' "iova + k" l d] tbl
        leaf_translate [OF g l0 lb(2) True prot al pa k]
      by (simp add: idx v)
    moreover have "iopte_val (mem s' x) = iopte_val (mem s x)" if "x \<noteq> ?slot" for x
      using init_pte_frame(1,2) [OF ip] that sp by (cases "x = prev") auto
    ultimately show ?thesis using True lb(2) by (auto simp: path)
  next
    case nl: False
    show ?thesis
    proof (cases "3 \<le> l")
      case True
      then show ?thesis using run map_rec_einval [OF nl True] by (simp add: EINVAL_def)
    next
      case False
      then have l3: "l < 3" by simp
      have ns: "l + 1 \<noteq> ARM_LPAE_START_LVL d" "ARM_LPAE_START_LVL d \<le> l + 1" "l + 1 \<le> 3"
        using lb l3 by auto
      have m: "nat (3 - (l + 1)) < n" using less.prems(1) l3 by auto
      show ?thesis
      proof (cases "mem s ?slot = 0")
        case z: True
        have path: "?path = [(tbl, ?slot)]" using z by (simp add: map_path_stop)
        show ?thesis
        proof (cases "pool s = [] \<or> hd (pool s) = 0")
          case True
          then show ?thesis using run map_rec_nomem [OF nl l3 z True, where pa = pa and prot = prot and prev = prev]
            by (auto simp: ENOMEM_def)
        next
          case False
          then obtain c rest where pool: "pool s = c # rest" "c \<noteq> 0" by (cases "pool s") auto
          let ?s1 = "after_alloc d ?slot c rest s"
          let ?x = "c + 8 * ARM_LPAE_LVL_IDX iova (l + 1) d"
          have run1: "arm_lpae_map_rec d iova pa sz prot (l + 1) c ?slot None ?s1 = Some (0, ms, s')"
            using run map_rec_alloc [OF nl l3 z pool] by simp
          have c: "page_ok d c" "\<not> in_page d c ?slot" using pl [of c] pool by auto
          have xin: "in_page d c ?x" using idx_in_page [OF g ns(1)] .
          have xs: "?x \<noteq> ?slot" using c(2) xin by auto
          have s1z: "mem ?s1 ?x = 0" using xs xin by (simp add: after_alloc_mem)
          have path1: "map_path d iova sz (l + 1) c ?s1 = [(c, ?x)]"
            using s1z by (simp add: map_path_stop)
          have po1: "path_ok d (map_path d iova sz (l + 1) c ?s1) ?slot ?s1"
            unfolding path1 using path_ok_alloc [OF g po [unfolded path] pool ns(1)] .
          note ih = less.IH [OF m refl ns(2,3) po1 run1]
          from ih obtain l' where l': "l + 1 \<le> l'" "l' \<le> 3" "leaf_here d sz l'" by blast
          have ex: "\<exists>l'. l \<le> l' \<and> l' \<le> 3 \<and> leaf_here d sz l'" using l' by (intro exI [of _ l']) simp
          have walk1: "iova_to_phys_walk d (iova + k) (l + 1) c s' = pa + k" using ih by blast
          have frame1: "iopte_val (mem s' x) = iopte_val (mem ?s1 x)"
            if "x \<noteq> ?x" "\<And>p. p \<in> set rest \<Longrightarrow> p \<noteq> 0 \<Longrightarrow> \<not> in_page d p x" for x
            using ih that by (simp add: path1 after_alloc_pool)
          have idx: "ARM_LPAE_LVL_IDX (iova + k) l d = ARM_LPAE_LVL_IDX iova l d"
            using same [OF _ l'(2,3)] l'(1) by simp
          have "iopte_val (mem s' ?slot) = iopte_val (mem ?s1 ?slot)"
            using frame1 [of ?slot] xs pl pool(1) by auto
          then have td: "iopte_val (mem s' ?slot) =
              iopte_val (if quirk_arm_ns (iop_cfg d)
                         then c OR ARM_LPAE_PTE_TYPE_TABLE OR ARM_LPAE_PTE_NSTABLE
                         else c OR ARM_LPAE_PTE_TYPE_TABLE)"
            by (simp add: after_alloc_mem)
          have "iova_to_phys_walk d (iova + k) l tbl s' = pa + k"
            using walk_table [of tbl s' "iova + k" l d] tbl l3 table_desc [OF g c(1) td] walk1
            by (simp add: idx)
          moreover have "iopte_val (mem s' x) = iopte_val (mem s x)"
            if "x \<noteq> ?slot" "\<And>p. p \<in> set (pool s) \<Longrightarrow> p \<noteq> 0 \<Longrightarrow> \<not> in_page d p x" for x
          proof -
            have nc: "\<not> in_page d c x" using that(2) [of c] pool by simp
            then have "x \<noteq> ?x" using xin by auto
            then have "iopte_val (mem s' x) = iopte_val (mem ?s1 x)"
              using frame1 [of x] that(2) pool(1) by auto
            then show ?thesis using that(1) nc by (simp add: after_alloc_mem)
          qed
          ultimately show ?thesis using ex by (auto simp: path)
        qed
      next
        case nz: False
        let ?child = "iopte_deref (mem s ?slot) d"
        let ?rest = "map_path d iova sz (l + 1) ?child s"
        have path: "?path = (tbl, ?slot) # ?rest" using map_path_follow [OF nl l3 nz] .
        have rne: "?rest \<noteq> []" using map_path_hd [of d iova sz "l + 1" ?child s] by auto
        have po1: "path_ok d ?rest ?slot s"
          and ty: "iopte_type (mem s ?slot) = ARM_LPAE_PTE_TYPE_TABLE"
          using path_ok_tl [OF po [unfolded path] rne] by auto
        have sr: "?slot \<notin> snd ` set ?rest" using path_ok_hd(3) [OF po [unfolded path]] .
        have run1: "arm_lpae_map_rec d iova pa sz prot (l + 1) ?child ?slot None s = Some (0, ms, s')"
          using run map_rec_follow [OF nl l3 nz] by simp
        note ih = less.IH [OF m refl ns(2,3) po1 run1]
        from ih obtain l' where l': "l + 1 \<le> l'" "l' \<le> 3" "leaf_here d sz l'" by blast
        have ex: "\<exists>l'. l \<le> l' \<and> l' \<le> 3 \<and> leaf_here d sz l'" using l' by (intro exI [of _ l']) simp
        have walk1: "iova_to_phys_walk d (iova + k) (l + 1) ?child s' = pa + k" using ih by blast
        have frame1: "iopte_val (mem s' x) = iopte_val (mem s x)"
          if "x \<notin> snd ` set ?rest" "\<And>p. p \<in> set (pool s) \<Longrightarrow> p \<noteq> 0 \<Longrightarrow> \<not> in_page d p x" for x
          using ih that by blast
        have idx: "ARM_LPAE_LVL_IDX (iova + k) l d = ARM_LPAE_LVL_IDX iova l d"
          using same [OF _ l'(2,3)] l'(1) by simp
        have v: "iopte_val (mem s' ?slot) = iopte_val (mem s ?slot)"
          using frame1 [OF sr] pl by auto
        have "iova_to_phys_walk d (iova + k) l tbl s' = pa + k"
          using walk_table [of tbl s' "iova + k" l d] tbl l3 ty walk1
            iopte_type_cong [OF v] iopte_deref_cong [OF v, of d]
          by (simp add: idx)
        moreover have "iopte_val (mem s' x) = iopte_val (mem s x)"
          if "x \<notin> snd ` set ?path" "\<And>p. p \<in> set (pool s) \<Longrightarrow> p \<noteq> 0 \<Longrightarrow> \<not> in_page d p x" for x
          using frame1 [of x] that by (simp add: path)
        ultimately show ?thesis using ex by auto
      qed
    qed
  qed
qed

text \<open>
  C1, with the conditions on the addresses that \<open>map\<close> leaves to its caller: when \<open>iova\<close>
  and \<open>pa\<close> are aligned to the size and \<open>pa\<close> is below \<open>2 ^ 48\<close>, a successful \<open>map\<close>
  with read or write access into a well-formed tree makes every address of the range
  translate: \<open>iova_to_phys (iova + k)\<close> is \<open>pa + k\<close> for every \<open>k\<close> below the size.
\<close>

theorem map_then_iova_to_phys:
  assumes "geom_ok d"
    and "path_ok d (map_path d iova sz (ARM_LPAE_START_LVL d) (pgd d) s) 0 s"
    and "IOMMU_READ \<in> prot \<or> IOMMU_WRITE \<in> prot"
    and "arm_lpae_map d iova pa sz prot s = Some (0, s')"
    and "iova AND (sz - 1) = 0" and "pa AND (sz - 1) = 0" and "pa < 2 ^ 48" and "k < sz"
  shows "arm_lpae_iova_to_phys d (iova + k) s' = pa + k"
proof -
  from assms(3,4) obtain ms where
    run: "arm_lpae_map_rec d iova pa sz (arm_lpae_prot_to_pte d prot) (ARM_LPAE_START_LVL d) (pgd d)
            0 None s = Some (0, ms, s')"
    by (auto simp: arm_lpae_map_def)
  have "ARM_LPAE_START_LVL d \<le> 3"
    using assms(1) by (simp add: geom_ok_def ARM_LPAE_START_LVL_def ARM_LPAE_MAX_LEVELS_def)
  from map_rec_correct [OF assms(1) bit_prot_to_pte assms(5-8) refl order_refl this assms(2) run]
  show ?thesis by (simp add: arm_lpae_iova_to_phys_def)
qed

theorem map_then_iova_to_phys_witness:
  "geom_ok d0
   \<and> path_ok d0 (map_path d0 0x40000000 0x200000 (ARM_LPAE_START_LVL d0) (pgd d0) s_one) 0 s_one
   \<and> arm_lpae_map d0 0x40000000 0x80000000 0x200000 {IOMMU_READ, IOMMU_WRITE} s_one = Some (0, s_one_blk)
   \<and> arm_lpae_iova_to_phys d0 0x40001042 s_one_blk = 0x80001042"
proof -
  have g: "geom_ok d0" by (simp add: geom_ok_def d0_sel)
  have p: "path_ok d0 (map_path d0 0x40000000 0x200000 (ARM_LPAE_START_LVL d0) (pgd d0) s_one) 0 s_one"
    unfolding s_one_def
    by (simp add: path_ok_def map_path.simps leaf_here_def page_ok_def in_page_def iopte_type_def
        ARM_LPAE_PTE_TYPE_SHIFT_def ARM_LPAE_PTE_TYPE_MASK_def map_eval s0_def)
  have m: "arm_lpae_map d0 0x40000000 0x80000000 0x200000 {IOMMU_READ, IOMMU_WRITE} s_one
           = Some (0, s_one_blk)"
    unfolding s_one_blk_def s_one_def by (simp add: map_eval s0_def)
  have "arm_lpae_iova_to_phys d0 (0x40000000 + 0x1042) s_one_blk = 0x80000000 + 0x1042"
    using map_then_iova_to_phys [OF g p _ m, where k = "0x1042"] by simp
  with g p m show ?thesis by simp
qed

text \<open>
  C1 fails as stated, without the conditions on the addresses: \<open>map\<close> does not look at the
  alignment of \<open>iova\<close> and \<open>paddr\<close> nor at the width of \<open>paddr\<close>, and \<open>pfn_to_iopte\<close>
  only masks. In the empty tree, \<open>map\<close> of 4 KiB at \<open>0x6123\<close> to the physical address
  \<open>0x1000000007456\<close> returns 0, and \<open>0x6123\<close> then translates to \<open>0x7123\<close>.
\<close>

theorem map_unaligned_counterexample:
  "geom_ok d0
   \<and> path_ok d0 (map_path d0 0x6123 0x1000 (ARM_LPAE_START_LVL d0) (pgd d0) s0) 0 s0
   \<and> arm_lpae_iova_to_phys d0 0x6123 s0 = 0
   \<and> arm_lpae_map d0 0x6123 0x1000000007456 0x1000 {IOMMU_READ, IOMMU_WRITE} s0
       = Some (0, s_unaligned)
   \<and> arm_lpae_iova_to_phys d0 (0x6123 + 0) s_unaligned = 0x7123
   \<and> arm_lpae_iova_to_phys d0 (0x6123 + 0) s_unaligned \<noteq> 0x1000000007456 + 0"
  unfolding s_unaligned_def
  by (simp add: geom_ok_def path_ok_def map_path.simps leaf_here_def page_ok_def in_page_def
      map_eval walk_eval s0_def)


section \<open>Sub-blocks of a block\<close>








section \<open>Mapping a sub-block into the table of the split\<close>








section \<open>The loop of the split\<close>











section \<open>The split of a block\<close>









section \<open>Addresses of a block\<close>







section \<open>Translation through a block and through its split\<close>





section \<open>The walk down to a block\<close>








section \<open>Unmapping inside a block\<close>





section \<open>The calls of \<open>arm_lpae_unmap\<close>\<close>










lemma s_gig_ok:
  "arm_lpae_map d0 0x40000000 0x80000000 0x40000000 {IOMMU_READ, IOMMU_WRITE} s0 = Some (0, s_gig)"
  unfolding s_gig_def by (simp add: map_eval s0_def)






end
